theory Spec2Isabelle
  imports Complex_Main
begin

section \<open>Errors and arrays\<close>

text \<open>
  The models of \<^verbatim>\<open>models/models.py\<close> work on two-dimensional numpy arrays of
  floats. An array is its number of columns together with its rows; the number of rows
  is the length of the row list, so the shapes \<open>(0, m)\<close> are all distinct, as in
  numpy. Entries are real numbers: rounding, \<open>inf\<close> and \<open>nan\<close> are not part of
  the model, every arithmetic operation is exact.

  Every Python exception is a value of \<open>py_error\<close>, and a function that can raise
  returns \<open>py_error + 'a\<close>. \<open>NonFinite\<close> is not a Python exception: it marks the
  one place where numpy would store \<open>nan\<close> or \<open>inf\<close> in the result (a division of
  a non-empty array by zero), which the real-valued model cannot represent.
\<close>

datatype py_error =
    AssertionError
  | AttributeError
  | TypeError
  | ValueError
  | LinAlgError
  | NonFinite
  | Raised string

datatype ndarray = NDArray (shape1: nat) (rows: "real list list")

definition shape0 :: "ndarray \<Rightarrow> nat" where
  "shape0 a = length (rows a)"

definition wf_ndarray :: "ndarray \<Rightarrow> bool" where
  "wf_ndarray a = list_all (\<lambda>r. length r = shape1 a) (rows a)"

definition item :: "ndarray \<Rightarrow> nat \<Rightarrow> nat \<Rightarrow> real" where
  "item a i j = rows a ! i ! j"

definition bind_err :: "'e + 'a \<Rightarrow> ('a \<Rightarrow> 'e + 'b) \<Rightarrow> 'e + 'b" where
  "bind_err r f = (case r of Inl e \<Rightarrow> Inl e | Inr v \<Rightarrow> f v)"

subsection \<open>The numpy operations the models call\<close>

definition np_zeros :: "nat \<Rightarrow> nat \<Rightarrow> ndarray" where
  "np_zeros n m = NDArray m (replicate n (replicate m 0))"

definition np_ones :: "nat \<Rightarrow> nat \<Rightarrow> ndarray" where
  "np_ones n m = NDArray m (replicate n (replicate m 1))"

text \<open>\<^verbatim>\<open>np.concatenate([a, b], axis=1)\<close>: the row counts must agree.\<close>

definition np_concatenate1 :: "ndarray \<Rightarrow> ndarray \<Rightarrow> py_error + ndarray" where
  "np_concatenate1 a b =
     (if shape0 a \<noteq> shape0 b then Inl ValueError
      else Inr (NDArray (shape1 a + shape1 b) (map2 (@) (rows a) (rows b))))"

definition transpose_nd :: "ndarray \<Rightarrow> ndarray" where
  "transpose_nd a =
     NDArray (shape0 a) (map (\<lambda>j. map (\<lambda>r. r ! j) (rows a)) [0..<shape1 a])"

text \<open>\<^verbatim>\<open>np.dot(a, b)\<close> on two-dimensional arrays: the matrix product.\<close>

definition np_dot :: "ndarray \<Rightarrow> ndarray \<Rightarrow> py_error + ndarray" where
  "np_dot a b =
     (if shape1 a \<noteq> shape0 b then Inl ValueError
      else Inr (NDArray (shape1 b)
             (map (\<lambda>r. map (\<lambda>j. \<Sum>k\<leftarrow>[0..<shape1 a]. r ! k * item b k j) [0..<shape1 b])
                (rows a))))"

text \<open>
  Elementwise operations broadcast: two extents are compatible when they are equal or
  one of them is 1, and the axis of extent 1 is repeated.
\<close>

definition broadcast_dim :: "nat \<Rightarrow> nat \<Rightarrow> nat option" where
  "broadcast_dim m n =
     (if m = n then Some m else if m = 1 then Some n else if n = 1 then Some m else None)"

definition bitem :: "ndarray \<Rightarrow> nat \<Rightarrow> nat \<Rightarrow> real" where
  "bitem a i j = item a (if shape0 a = 1 then 0 else i) (if shape1 a = 1 then 0 else j)"

definition np_binop :: "(real \<Rightarrow> real \<Rightarrow> real) \<Rightarrow> ndarray \<Rightarrow> ndarray \<Rightarrow> py_error + ndarray" where
  "np_binop f a b =
     (case broadcast_dim (shape0 a) (shape0 b) of
        None \<Rightarrow> Inl ValueError
      | Some n \<Rightarrow>
          (case broadcast_dim (shape1 a) (shape1 b) of
             None \<Rightarrow> Inl ValueError
           | Some m \<Rightarrow>
               Inr (NDArray m
                 (map (\<lambda>i. map (\<lambda>j. f (bitem a i j) (bitem b i j)) [0..<m]) [0..<n]))))"

definition np_subtract :: "ndarray \<Rightarrow> ndarray \<Rightarrow> py_error + ndarray" where
  "np_subtract = np_binop (\<lambda>x y. x - y)"

definition np_divide :: "ndarray \<Rightarrow> ndarray \<Rightarrow> py_error + ndarray" where
  "np_divide a b =
     (if concat (rows b) \<noteq> [] \<and> 0 \<in> set (concat (rows b)) then Inl NonFinite
      else np_binop (\<lambda>x y. x / y) a b)"

definition map_nd :: "(real \<Rightarrow> real) \<Rightarrow> ndarray \<Rightarrow> ndarray" where
  "map_nd f a = NDArray (shape1 a) (map (map f) (rows a))"

text \<open>\<^verbatim>\<open>a / n\<close> for a Python integer \<open>n\<close>.\<close>

definition divide_scalar :: "ndarray \<Rightarrow> nat \<Rightarrow> py_error + ndarray" where
  "divide_scalar a n =
     (if n = 0 \<and> concat (rows a) \<noteq> [] then Inl NonFinite
      else Inr (map_nd (\<lambda>x. x / real n) a))"

definition np_sum :: "ndarray \<Rightarrow> real" where
  "np_sum a = sum_list (concat (rows a))"

text \<open>
  \<^verbatim>\<open>np.max(a, axis=1, keepdims=True)\<close> and \<^verbatim>\<open>a.argmax(axis=1)\<close> raise
  \<^verbatim>\<open>ValueError\<close> when the reduced axis is empty; \<^verbatim>\<open>np.sum\<close> of an empty axis is 0.
  \<^verbatim>\<open>argmax\<close> returns the first index at which the maximum is attained.
\<close>

definition np_max1 :: "ndarray \<Rightarrow> py_error + ndarray" where
  "np_max1 a =
     (if shape1 a = 0 then Inl ValueError
      else Inr (NDArray 1 (map (\<lambda>r. [Max (set r)]) (rows a))))"

definition np_sum1 :: "ndarray \<Rightarrow> ndarray" where
  "np_sum1 a = NDArray 1 (map (\<lambda>r. [sum_list r]) (rows a))"

definition argmax_row :: "real list \<Rightarrow> nat" where
  "argmax_row r = length (takeWhile (\<lambda>x. x \<noteq> Max (set r)) r)"

definition argmax1 :: "ndarray \<Rightarrow> py_error + nat list" where
  "argmax1 a =
     (if shape1 a = 0 then Inl ValueError else Inr (map argmax_row (rows a)))"

text \<open>The assignment \<^verbatim>\<open>a[i, j] = v\<close>, for indices in range.\<close>

definition setitem :: "ndarray \<Rightarrow> nat \<Rightarrow> nat \<Rightarrow> real \<Rightarrow> ndarray" where
  "setitem a i j v = NDArray (shape1 a) ((rows a)[i := (rows a ! i)[j := v]])"

section \<open>The shared helpers\<close>

text \<open>
  \<^verbatim>\<open>
  def softmax(X):
      eps = 1e-8
      return np.exp(X - np.max(X, axis=1, keepdims=True)) / (
          np.sum(np.exp(X-np.max(X, axis=1, keepdims=True)), axis=1, keepdims=True) + eps)
  \<close>
\<close>

definition eps :: real where
  "eps = 1 / 10 ^ 8"

definition softmax :: "ndarray \<Rightarrow> py_error + ndarray" where
  "softmax X =
     bind_err (np_max1 X) (\<lambda>mx.
     bind_err (np_subtract X mx) (\<lambda>d.
     bind_err (np_max1 X) (\<lambda>mx'.
     bind_err (np_subtract X mx') (\<lambda>d'.
       np_divide (map_nd exp d) (map_nd (\<lambda>s. s + eps) (np_sum1 (map_nd exp d')))))))"

text \<open>
  The same lines with the arithmetic left open. numpy computes \<^verbatim>\<open>softmax\<close> in the
  floating-point type of the array, where every operation rounds: the subtraction, the
  exponential, the sum along the row, the addition of \<^verbatim>\<open>eps\<close> and the division are
  the fields of an \<open>arith\<close>, and \<open>feps\<close> is the value of \<^verbatim>\<open>1e-8\<close> in that type.
  \<^verbatim>\<open>np.max\<close> selects an entry and does not round. Values are finite: \<open>inf\<close> and
  \<open>nan\<close> are not represented.
\<close>

record arith =
  fsub :: "real \<Rightarrow> real \<Rightarrow> real"
  fadd :: "real \<Rightarrow> real \<Rightarrow> real"
  fdiv :: "real \<Rightarrow> real \<Rightarrow> real"
  fexp :: "real \<Rightarrow> real"
  fsum :: "real list \<Rightarrow> real"
  feps :: real

definition sum1_fl :: "arith \<Rightarrow> ndarray \<Rightarrow> ndarray" where
  "sum1_fl ar a = NDArray 1 (map (\<lambda>r. [fsum ar r]) (rows a))"

definition divide_fl :: "arith \<Rightarrow> ndarray \<Rightarrow> ndarray \<Rightarrow> py_error + ndarray" where
  "divide_fl ar a b =
     (if concat (rows b) \<noteq> [] \<and> 0 \<in> set (concat (rows b)) then Inl NonFinite
      else np_binop (fdiv ar) a b)"

definition softmax_fl :: "arith \<Rightarrow> ndarray \<Rightarrow> py_error + ndarray" where
  "softmax_fl ar X =
     bind_err (np_max1 X) (\<lambda>mx.
     bind_err (np_binop (fsub ar) X mx) (\<lambda>d.
     bind_err (np_max1 X) (\<lambda>mx'.
     bind_err (np_binop (fsub ar) X mx') (\<lambda>d'.
       divide_fl ar (map_nd (fexp ar) d)
         (map_nd (\<lambda>s. fadd ar s (feps ar)) (sum1_fl ar (map_nd (fexp ar) d')))))))"

text \<open>
  The exact arithmetic, in which \<open>softmax_fl\<close> is \<open>softmax\<close>; and an arithmetic
  that differs from it in one respect, as binary floating point with a short significand
  does: an addend of at most \<open>1/2^25\<close> times the other operand is absorbed by the addition.
\<close>

definition exact_arith :: arith where
  "exact_arith = \<lparr>fsub = (\<lambda>x y. x - y), fadd = (\<lambda>x y. x + y), fdiv = (\<lambda>x y. x / y),
                   fexp = exp, fsum = sum_list, feps = 1 / 10 ^ 8\<rparr>"

definition absorbing_arith :: arith where
  "absorbing_arith = \<lparr>fsub = (\<lambda>x y. x - y),
                       fadd = (\<lambda>x y. if \<bar>y\<bar> * 2 ^ 25 \<le> \<bar>x\<bar> then x else x + y),
                       fdiv = (\<lambda>x y. x / y),
                       fexp = exp, fsum = sum_list, feps = 1 / 10 ^ 8\<rparr>"

text \<open>
  What the proofs below use of an arithmetic, each a property of IEEE arithmetic with
  rounding to nearest on finite values: \<open>x - x\<close> is 0, the exponential of 0 is 1, an
  exponential is never negative (it may underflow to 0), a sum of entries that are not
  negative, one of them being 1, is at least 1, and adding \<^verbatim>\<open>eps\<close> to a number that is
  at least 1 gives a positive number.
\<close>

definition rounds_like_ieee :: "arith \<Rightarrow> bool" where
  "rounds_like_ieee ar =
     ((\<forall>x. fsub ar x x = 0) \<and>
      fexp ar 0 = 1 \<and>
      (\<forall>x. 0 \<le> fexp ar x) \<and>
      (\<forall>xs. (\<forall>x\<in>set xs. 0 \<le> x) \<and> 1 \<in> set xs \<longrightarrow> 1 \<le> fsum ar xs) \<and>
      (\<forall>s. 1 \<le> s \<longrightarrow> 0 < fadd ar s (feps ar)))"

text \<open>
  \<^verbatim>\<open>
  def one_hot(y):
      y_one_hot = np.zeros(y.shape)
      pred_labels = y.argmax(axis=1)
      for i in range(y.shape[0]):
          y_one_hot[i, pred_labels[i]] = 1
      return y_one_hot
  \<close>
  The loop runs over the list of indices and threads the local array.
\<close>

fun one_hot_loop :: "nat list \<Rightarrow> nat list \<Rightarrow> ndarray \<Rightarrow> ndarray" where
  "one_hot_loop [] pred_labels y_one_hot = y_one_hot"
| "one_hot_loop (i # is) pred_labels y_one_hot =
     one_hot_loop is pred_labels (setitem y_one_hot i (pred_labels ! i) 1)"

definition one_hot :: "ndarray \<Rightarrow> py_error + ndarray" where
  "one_hot y =
     (let y_one_hot = np_zeros (shape0 y) (shape1 y) in
      bind_err (argmax1 y) (\<lambda>pred_labels.
        Inr (one_hot_loop [0..<shape0 y] pred_labels y_one_hot)))"

section \<open>Linear regression: the numeric methods\<close>

text \<open>
  \<^verbatim>\<open>np.linalg.inv\<close> raises \<^verbatim>\<open>LinAlgError\<close> on an array that is not square or
  is singular. Over the reals a square matrix is singular exactly when its determinant
  is 0; the inverse is the adjugate divided by the determinant. The determinant is
  expanded along the first row. This is the inverse in exact arithmetic: the rounding of
  the library routine, and with it the exact matrices on which it raises, is not
  represented.
\<close>

definition del_col :: "nat \<Rightarrow> real list \<Rightarrow> real list" where
  "del_col j r = take j r @ drop (Suc j) r"

fun det :: "real list list \<Rightarrow> real" where
  "det [] = 1"
| "det (r # rs) = (\<Sum>j\<leftarrow>[0..<length r]. (- 1) ^ j * r ! j * det (map (del_col j) rs))"

definition minor :: "real list list \<Rightarrow> nat \<Rightarrow> nat \<Rightarrow> real list list" where
  "minor m i j = map (del_col j) (take i m @ drop (Suc i) m)"

definition np_linalg_inv :: "ndarray \<Rightarrow> py_error + ndarray" where
  "np_linalg_inv a =
     (if shape0 a \<noteq> shape1 a then Inl LinAlgError
      else if det (rows a) = 0 then Inl LinAlgError
      else Inr (NDArray (shape1 a)
             (map (\<lambda>i. map (\<lambda>j. (- 1) ^ (i + j) * det (minor (rows a) j i) / det (rows a))
                          [0..<shape1 a])
                [0..<shape0 a])))"

text \<open>
  \<^verbatim>\<open>
  def cost_fn(self, X, y, w):
      cost = 0.5 * np.sum((y - np.dot(X, w))**2)
      return cost

  def gradient(self, X, y, w):
      y_hat = np.dot(X, w)
      grad = np.dot(X.transpose(), y_hat - y) / X.shape[0]
      return grad

  def analytic_fit(self, X, y):
      XTX = np.dot(X.transpose(), X)
      XTX_inv = np.linalg.inv(XTX)
      XTX_inv_XT = np.dot(XTX_inv, X.transpose())
      w = np.dot(XTX_inv_XT, y)
      return w
  \<close>
  None of the three reads or writes a field of \<open>self\<close>.
\<close>

definition LinearRegression_cost_fn :: "ndarray \<Rightarrow> ndarray \<Rightarrow> ndarray \<Rightarrow> py_error + real" where
  "LinearRegression_cost_fn X y w =
     bind_err (np_dot X w) (\<lambda>Xw.
     bind_err (np_subtract y Xw) (\<lambda>d.
       Inr (0.5 * np_sum (map_nd (\<lambda>x. x ^ 2) d))))"

definition LinearRegression_gradient :: "ndarray \<Rightarrow> ndarray \<Rightarrow> ndarray \<Rightarrow> py_error + ndarray" where
  "LinearRegression_gradient X y w =
     bind_err (np_dot X w) (\<lambda>y_hat.
     bind_err (np_subtract y_hat y) (\<lambda>d.
     bind_err (np_dot (transpose_nd X) d) (\<lambda>p.
       divide_scalar p (shape0 X))))"

definition LinearRegression_analytic_fit :: "ndarray \<Rightarrow> ndarray \<Rightarrow> py_error + ndarray" where
  "LinearRegression_analytic_fit X y =
     bind_err (np_dot (transpose_nd X) X) (\<lambda>XTX.
     bind_err (np_linalg_inv XTX) (\<lambda>XTX_inv.
     bind_err (np_dot XTX_inv (transpose_nd X)) (\<lambda>XTX_inv_XT.
       np_dot XTX_inv_XT y)))"

section \<open>Logistic regression: the gradient\<close>

text \<open>
  \<^verbatim>\<open>
  def gradient(self, X, y, w):
      y_hat = softmax(np.dot(X, w))
      gradient = np.dot(X.transpose(), y_hat - y) / y.shape[0]
      return gradient
  \<close>
\<close>

definition LogisticRegression_gradient :: "ndarray \<Rightarrow> ndarray \<Rightarrow> ndarray \<Rightarrow> py_error + ndarray" where
  "LogisticRegression_gradient X y w =
     bind_err (np_dot X w) (\<lambda>z.
     bind_err (softmax z) (\<lambda>y_hat.
     bind_err (np_subtract y_hat y) (\<lambda>d.
     bind_err (np_dot (transpose_nd X) d) (\<lambda>p.
       divide_scalar p (shape0 y)))))"

text \<open>The expression \<^verbatim>\<open>one_hot(softmax(np.dot(A, w)))\<close> of \<^verbatim>\<open>predict\<close>.\<close>

definition one_hot_softmax_dot :: "ndarray \<Rightarrow> ndarray \<Rightarrow> py_error + ndarray" where
  "one_hot_softmax_dot A w = bind_err (np_dot A w) (\<lambda>z. bind_err (softmax z) one_hot)"

section \<open>Objects: the store, the optimizer, the two classes\<close>

text \<open>
  Arrays are objects: \<open>X\<close>, \<open>y\<close>, \<open>w\<close> and \<open>self.w\<close> are references. The store
  is the list of all arrays allocated so far and a reference is an index into it.
  Allocation appends, so a new array never shares its reference with an old one.
\<close>

type_synonym addr = nat
type_synonym store = "ndarray list"

definition alloc :: "store \<Rightarrow> ndarray \<Rightarrow> addr \<times> store" where
  "alloc h a = (length h, h @ [a])"

text \<open>A numpy call on two arrays that returns a new array, or raises.\<close>

definition call2 ::
  "(ndarray \<Rightarrow> ndarray \<Rightarrow> py_error + ndarray) \<Rightarrow> store \<Rightarrow> addr \<Rightarrow> addr \<Rightarrow> (py_error + addr) \<times> store" where
  "call2 f h a b =
     (case f (h ! a) (h ! b) of
        Inl e \<Rightarrow> (Inl e, h)
      | Inr r \<Rightarrow> (let (p, h') = alloc h r in (Inr p, h')))"

text \<open>
  A bound \<^verbatim>\<open>gradient\<close> method, as the optimizer receives it: it reads three arrays and
  returns a new one.
\<close>

type_synonym gradient_fn = "store \<Rightarrow> addr \<Rightarrow> addr \<Rightarrow> addr \<Rightarrow> (py_error + addr) \<times> store"

definition bound_method ::
  "(ndarray \<Rightarrow> ndarray \<Rightarrow> ndarray \<Rightarrow> py_error + ndarray) \<Rightarrow> gradient_fn" where
  "bound_method g h X y w =
     (case g (h ! X) (h ! y) (h ! w) of
        Inl e \<Rightarrow> (Inl e, h)
      | Inr r \<Rightarrow> (let (p, h') = alloc h r in (Inr p, h')))"

text \<open>
  The optimizer is not part of \<^verbatim>\<open>models.py\<close>; the models use it through
  \<^verbatim>\<open>optimizer_class(**optimizer_kwargs)\<close>, \<^verbatim>\<open>optimizer.run(gradient, A, y, w)\<close> and
  \<^verbatim>\<open>optimizer.w_history\<close>. It is a parameter here. A class is its constructor, which
  may raise; an optimizer is its \<^verbatim>\<open>run\<close>, which works on the store (it may write to
  the arrays it is handed and allocate new ones) and either raises or returns the
  reference of the final weights together with the value that \<^verbatim>\<open>w_history\<close> holds
  afterwards, a list of references.
\<close>

datatype run_result = RunRaised py_error | RunReturned addr "addr list"

type_synonym optimizer = "gradient_fn \<Rightarrow> store \<Rightarrow> addr \<Rightarrow> addr \<Rightarrow> addr \<Rightarrow> run_result \<times> store"

type_synonym 'k optimizer_class = "'k \<Rightarrow> py_error + optimizer"

text \<open>
  \<^verbatim>\<open>
  class LinearRegression:
      def __init__(self, add_bias=True):
          self.add_bias = add_bias
          self.w = None

  class LogisticRegression:
      def __init__(self, add_bias=True):
          self.add_bias = add_bias
  \<close>
  \<open>LinearRegression.w\<close> is \<open>None\<close> for Python's \<^verbatim>\<open>None\<close>. The constructor of
  \<^verbatim>\<open>LogisticRegression\<close> does not assign \<^verbatim>\<open>w\<close>: the attribute does not exist until
  \<^verbatim>\<open>fit\<close> creates it, and reading it before raises \<^verbatim>\<open>AttributeError\<close>.
  The parameter \<^verbatim>\<open>w\<close> of the \<^verbatim>\<open>predict\<close> methods is \<open>w_arg\<close> below, \<open>None\<close>
  when the caller passes no override.
\<close>

datatype 'a attribute = Unset | Bound 'a

record LinearRegression =
  add_bias :: bool
  w :: "addr option"

record LogisticRegression =
  add_bias :: bool
  w :: "addr attribute"

definition LinearRegression_init :: "bool \<Rightarrow> LinearRegression" where
  "LinearRegression_init b = \<lparr>LinearRegression.add_bias = b, LinearRegression.w = None\<rparr>"

definition LogisticRegression_init :: "bool \<Rightarrow> LogisticRegression" where
  "LogisticRegression_init b = \<lparr>LogisticRegression.add_bias = b, LogisticRegression.w = Unset\<rparr>"

text \<open>
  The first lines of all four \<^verbatim>\<open>fit\<close> and \<^verbatim>\<open>predict\<close> methods:
  \<^verbatim>\<open>
      A = np.copy(X)
      if self.add_bias:
          A = np.concatenate([np.ones((A.shape[0], 1)), A], axis=1)
  \<close>
\<close>

definition augment :: "bool \<Rightarrow> store \<Rightarrow> addr \<Rightarrow> (py_error + addr) \<times> store" where
  "augment bias h X =
     (let (A, h1) = alloc h (h ! X) in
      if bias then
        (case np_concatenate1 (np_ones (shape0 (h1 ! A)) 1) (h1 ! A) of
           Inl e \<Rightarrow> (Inl e, h1)
         | Inr c \<Rightarrow> (let (A', h2) = alloc h1 c in (Inr A', h2)))
      else (Inr A, h1))"

text \<open>
  \<^verbatim>\<open>
  def fit(self, X, y, analytic_fit=False, optimizer_class=None, **optimizer_kwargs):
      A = np.copy(X)
      if self.add_bias:
          A = np.concatenate([np.ones((A.shape[0], 1)), A], axis=1)
      if analytic_fit:
          self.w = self.analytic_fit(A, y)
          return self.w
      assert optimizer_class is not None
      self.w = np.zeros((A.shape[1], 1))
      optimizer = optimizer_class(**optimizer_kwargs)
      self.w = optimizer.run(self.gradient, A, y, self.w)
      return optimizer.w_history
  \<close>
  A call returns what the method returns or raises, the instance afterwards and the
  store afterwards. \<^verbatim>\<open>fit\<close> returns either a weight array or a history.
\<close>

datatype fit_result = Weights addr | History "addr list"

definition LinearRegression_fit ::
  "LinearRegression \<Rightarrow> store \<Rightarrow> addr \<Rightarrow> addr \<Rightarrow> bool \<Rightarrow> 'k optimizer_class option \<Rightarrow> 'k
     \<Rightarrow> (py_error + fit_result) \<times> LinearRegression \<times> store" where
  "LinearRegression_fit self h X y analytic_fit optimizer_class optimizer_kwargs =
     (case augment (LinearRegression.add_bias self) h X of
        (Inl e, h1) \<Rightarrow> (Inl e, self, h1)
      | (Inr A, h1) \<Rightarrow>
          if analytic_fit then
            (case call2 LinearRegression_analytic_fit h1 A y of
               (Inl e, h2) \<Rightarrow> (Inl e, self, h2)
             | (Inr p, h2) \<Rightarrow> (Inr (Weights p), self\<lparr>LinearRegression.w := Some p\<rparr>, h2))
          else
            (case optimizer_class of
               None \<Rightarrow> (Inl AssertionError, self, h1)
             | Some cls \<Rightarrow>
                 (let (w0, h2) = alloc h1 (np_zeros (shape1 (h1 ! A)) 1);
                      self1 = self\<lparr>LinearRegression.w := Some w0\<rparr>
                  in case cls optimizer_kwargs of
                       Inl e \<Rightarrow> (Inl e, self1, h2)
                     | Inr run \<Rightarrow>
                         (case run (bound_method LinearRegression_gradient) h2 A y w0 of
                            (RunRaised e, h3) \<Rightarrow> (Inl e, self1, h3)
                          | (RunReturned p w_history, h3) \<Rightarrow>
                              (Inr (History w_history),
                               self1\<lparr>LinearRegression.w := Some p\<rparr>, h3)))))"

text \<open>
  \<^verbatim>\<open>
  def predict(self, X, w=None):
      assert self.w is not None
      A = np.copy(X)
      if self.add_bias:
          A = np.concatenate([np.ones((A.shape[0], 1)), A], axis=1)
      if w is not None:
          return np.dot(A, w)
      return np.dot(A, self.w)
  \<close>
\<close>

definition LinearRegression_predict ::
  "LinearRegression \<Rightarrow> store \<Rightarrow> addr \<Rightarrow> addr option \<Rightarrow> (py_error + addr) \<times> store" where
  "LinearRegression_predict self h X w_arg =
     (case LinearRegression.w self of
        None \<Rightarrow> (Inl AssertionError, h)
      | Some self_w \<Rightarrow>
          (case augment (LinearRegression.add_bias self) h X of
             (Inl e, h1) \<Rightarrow> (Inl e, h1)
           | (Inr A, h1) \<Rightarrow>
               (case w_arg of
                  Some w' \<Rightarrow> call2 np_dot h1 A w'
                | None \<Rightarrow> call2 np_dot h1 A self_w)))"

text \<open>
  \<^verbatim>\<open>
  def fit(self, X, y, optimizer_class, **optimizer_kwargs):
      A = np.copy(X)
      if self.add_bias:
          A = np.concatenate([np.ones((A.shape[0], 1)), A], axis=1)
      self.w = np.zeros((A.shape[1], y.shape[1]))
      optimizer = optimizer_class(**optimizer_kwargs)
      self.w = optimizer.run(self.gradient, A, y, self.w)
      return optimizer.w_history
  \<close>
  Calling \<^verbatim>\<open>None\<close> raises \<^verbatim>\<open>TypeError\<close>.
\<close>

definition LogisticRegression_fit ::
  "LogisticRegression \<Rightarrow> store \<Rightarrow> addr \<Rightarrow> addr \<Rightarrow> 'k optimizer_class option \<Rightarrow> 'k
     \<Rightarrow> (py_error + fit_result) \<times> LogisticRegression \<times> store" where
  "LogisticRegression_fit self h X y optimizer_class optimizer_kwargs =
     (case augment (LogisticRegression.add_bias self) h X of
        (Inl e, h1) \<Rightarrow> (Inl e, self, h1)
      | (Inr A, h1) \<Rightarrow>
          (let (w0, h2) = alloc h1 (np_zeros (shape1 (h1 ! A)) (shape1 (h1 ! y)));
               self1 = self\<lparr>LogisticRegression.w := Bound w0\<rparr>
           in case optimizer_class of
                None \<Rightarrow> (Inl TypeError, self1, h2)
              | Some cls \<Rightarrow>
                  (case cls optimizer_kwargs of
                     Inl e \<Rightarrow> (Inl e, self1, h2)
                   | Inr run \<Rightarrow>
                       (case run (bound_method LogisticRegression_gradient) h2 A y w0 of
                          (RunRaised e, h3) \<Rightarrow> (Inl e, self1, h3)
                        | (RunReturned p w_history, h3) \<Rightarrow>
                            (Inr (History w_history),
                             self1\<lparr>LogisticRegression.w := Bound p\<rparr>, h3)))))"

text \<open>
  \<^verbatim>\<open>
  def predict(self, X, w=None):
      A = np.copy(X)
      if self.add_bias:
          A = np.concatenate([np.ones((A.shape[0], 1)), A], axis=1)
      if w is not None:
          y_preds = one_hot(softmax(np.dot(A, w)))
      else:
          y_preds = one_hot(softmax(np.dot(A, self.w)))
      return y_preds
  \<close>
\<close>

definition LogisticRegression_predict ::
  "LogisticRegression \<Rightarrow> store \<Rightarrow> addr \<Rightarrow> addr option \<Rightarrow> (py_error + addr) \<times> store" where
  "LogisticRegression_predict self h X w_arg =
     (case augment (LogisticRegression.add_bias self) h X of
        (Inl e, h1) \<Rightarrow> (Inl e, h1)
      | (Inr A, h1) \<Rightarrow>
          (case w_arg of
             Some w' \<Rightarrow> call2 one_hot_softmax_dot h1 A w'
           | None \<Rightarrow>
               (case LogisticRegression.w self of
                  Unset \<Rightarrow> (Inl AttributeError, h1)
                | Bound self_w \<Rightarrow> call2 one_hot_softmax_dot h1 A self_w)))"

section \<open>What is asked of an optimizer, and two optimizers for the examples\<close>

text \<open>
  \<^verbatim>\<open>run\<close> is handed the references \<open>A\<close>, \<open>y\<close> and \<open>w0\<close>. An optimizer keeps to
  its working arrays when, given the gradient function \<open>g\<close>, it changes no array that
  existed before the call other than \<open>A\<close> and \<open>w0\<close>: it may update the design matrix
  and the weights in place, and allocate, but it only reads the targets.
\<close>

definition keeps_to_working_arrays :: "gradient_fn \<Rightarrow> optimizer \<Rightarrow> bool" where
  "keeps_to_working_arrays g run =
     (\<forall>h A y w0. \<forall>a<length h. a \<noteq> A \<and> a \<noteq> w0 \<longrightarrow> snd (run g h A y w0) ! a = h ! a)"

text \<open>
  An optimizer whose \<^verbatim>\<open>run\<close> raises at once, and one step of gradient descent with
  learning rate \<open>1/10\<close> that updates \<open>w0\<close> in place (\<^verbatim>\<open>w -= lr * grad\<close>), returns it
  and records one copy of it in \<^verbatim>\<open>w_history\<close>.
\<close>

definition raising_run :: optimizer where
  "raising_run g h A y w0 = (RunRaised (Raised ''run failed''), h)"

definition one_step_run :: optimizer where
  "one_step_run g h A y w0 =
     (case g h A y w0 of
        (Inl e, h1) \<Rightarrow> (RunRaised e, h1)
      | (Inr gr, h1) \<Rightarrow>
          (case np_subtract (h1 ! w0) (map_nd (\<lambda>x. x / 10) (h1 ! gr)) of
             Inl e \<Rightarrow> (RunRaised e, h1)
           | Inr w1 \<Rightarrow>
               (let h2 = h1[w0 := w1]; (c, h3) = alloc h2 w1
                in (RunReturned w0 [c], h3))))"

text \<open>The classes of the two optimizers; they take no keyword arguments.\<close>

definition raising_class :: "unit optimizer_class" where
  "raising_class kwargs = Inr raising_run"

definition one_step_class :: "unit optimizer_class" where
  "one_step_class kwargs = Inr one_step_run"

section \<open>Specification-level notions\<close>

text \<open>Bias augmentation: the array with a leading column of ones.\<close>

definition with_bias :: "ndarray \<Rightarrow> ndarray" where
  "with_bias x = NDArray (Suc (shape1 x)) (map (\<lambda>r. 1 # r) (rows x))"

text \<open>
  Row-wise softmax as the specification words it: the maximum of the row is subtracted
  from each entry before exponentiation, and the denominator is the sum of the
  exponentials of the row plus \<open>1e-8\<close>.
\<close>

definition row_max :: "ndarray \<Rightarrow> nat \<Rightarrow> real" where
  "row_max X i = Max (set (rows X ! i))"

definition softmax_entry :: "ndarray \<Rightarrow> nat \<Rightarrow> nat \<Rightarrow> real" where
  "softmax_entry X i j =
     exp (item X i j - row_max X i)
       / ((\<Sum>k<shape1 X. exp (item X i k - row_max X i)) + 1 / 10 ^ 8)"

text \<open>The same entry with the operations of an arithmetic.\<close>

definition softmax_fl_entry :: "arith \<Rightarrow> ndarray \<Rightarrow> nat \<Rightarrow> nat \<Rightarrow> real" where
  "softmax_fl_entry ar X i j =
     fdiv ar (fexp ar (fsub ar (item X i j) (row_max X i)))
       (fadd ar (fsum ar (map (\<lambda>k. fexp ar (fsub ar (item X i k) (row_max X i))) [0..<shape1 X]))
          (feps ar))"

section \<open>The helpers: one-hot encoding\<close>

lemma one_hot_loop_shape1: "shape1 (one_hot_loop is p z) = shape1 z"
  by (induction "is" arbitrary: z) (simp_all add: setitem_def)

lemma one_hot_loop_length: "length (rows (one_hot_loop is p z)) = length (rows z)"
  by (induction "is" arbitrary: z) (simp_all add: setitem_def)

lemma one_hot_loop_row:
  "distinct is \<Longrightarrow> i < length (rows z) \<Longrightarrow>
   rows (one_hot_loop is p z) ! i = (if i \<in> set is then (rows z ! i)[p ! i := 1] else rows z ! i)"
proof (induction "is" arbitrary: z)
  case Nil
  then show ?case by simp
next
  case (Cons k ks)
  let ?z = "setitem z k (p ! k) 1"
  have len: "i < length (rows ?z)" using Cons.prems by (simp add: setitem_def)
  have "rows (one_hot_loop (k # ks) p z) ! i = rows (one_hot_loop ks p ?z) ! i" by simp
  also have "\<dots> = (if i \<in> set ks then (rows ?z ! i)[p ! i := 1] else rows ?z ! i)"
    using Cons.IH [of ?z] Cons.prems len by simp
  also have "\<dots> = (if i \<in> set (k # ks) then (rows z ! i)[p ! i := 1] else rows z ! i)"
  proof (cases "i \<in> set ks")
    case True
    then have "i \<noteq> k" using Cons.prems(1) by auto
    then show ?thesis using True by (simp add: setitem_def)
  next
    case False
    then show ?thesis using Cons.prems(2) by (simp add: setitem_def nth_list_update)
  qed
  finally show ?case .
qed

lemma argmax_row_less: "r \<noteq> [] \<Longrightarrow> argmax_row r < length r"
proof -
  assume "r \<noteq> []"
  then have "Max (set r) \<in> set r" by simp
  then have "takeWhile (\<lambda>x. x \<noteq> Max (set r)) r \<noteq> r"
    by (metis (mono_tags, lifting) takeWhile_eq_all_conv)
  then show ?thesis
    unfolding argmax_row_def
    by (metis length_takeWhile_le le_neq_implies_less takeWhile_eq_take take_all_iff order_refl)
qed

lemma argmax_row_max: "r \<noteq> [] \<Longrightarrow> r ! argmax_row r = Max (set r)"
  using argmax_row_less [of r] nth_length_takeWhile [of "\<lambda>x. x \<noteq> Max (set r)" r]
  by (simp add: argmax_row_def)

lemma argmax_row_first: "j < argmax_row r \<Longrightarrow> r ! j < Max (set r)"
proof -
  assume j: "j < argmax_row r"
  then have jl: "j < length r"
    using length_takeWhile_le [of "\<lambda>x. x \<noteq> Max (set r)" r] by (simp add: argmax_row_def)
  have "takeWhile (\<lambda>x. x \<noteq> Max (set r)) r ! j \<in> set (takeWhile (\<lambda>x. x \<noteq> Max (set r)) r)"
    using j by (simp add: argmax_row_def)
  then have "r ! j \<noteq> Max (set r)"
    using j set_takeWhileD takeWhile_nth unfolding argmax_row_def by metis
  moreover have "r ! j \<le> Max (set r)" using jl by simp
  ultimately show ?thesis by simp
qed

lemma one_hot_result:
  assumes "0 < shape1 Y"
  shows "one_hot Y = Inr (one_hot_loop [0..<shape0 Y] (map argmax_row (rows Y))
                            (np_zeros (shape0 Y) (shape1 Y)))"
  using assms by (simp add: one_hot_def argmax1_def bind_err_def)

lemma one_hot_loop_zeros_row:
  assumes "i < n"
  shows "rows (one_hot_loop [0..<n] p (np_zeros n m)) ! i = (replicate m 0)[p ! i := 1]"
  using assms one_hot_loop_row [of "[0..<n]" i "np_zeros n m" p]
  by (simp add: np_zeros_def)

text \<open>
  C8. For every two-dimensional array \<open>Y\<close> with at least one column, \<open>one_hot Y\<close>
  returns an array of the shape of \<open>Y\<close>, and each of its rows is 1 at one index \<open>k\<close>
  and 0 at every other index, where \<open>k\<close> is the first index at which the row of \<open>Y\<close>
  attains its maximum: the entry at \<open>k\<close> is the maximum and every entry before \<open>k\<close> is
  strictly smaller.
\<close>

theorem one_hot_first_argmax:
  assumes "wf_ndarray Y" and "0 < shape1 Y"
  shows "\<exists>Z. one_hot Y = Inr Z \<and> shape0 Z = shape0 Y \<and> shape1 Z = shape1 Y \<and> wf_ndarray Z \<and>
           (\<forall>i<shape0 Y. \<exists>k<shape1 Y.
              item Y i k = Max (set (rows Y ! i)) \<and>
              (\<forall>j<k. item Y i j < item Y i k) \<and>
              (\<forall>j<shape1 Y. item Z i j = (if j = k then 1 else 0)))"
proof -
  let ?p = "map argmax_row (rows Y)"
  let ?Z = "one_hot_loop [0..<shape0 Y] ?p (np_zeros (shape0 Y) (shape1 Y))"
  have oh: "one_hot Y = Inr ?Z" by (rule one_hot_result [OF assms(2)])
  have s1: "shape1 ?Z = shape1 Y" by (simp add: one_hot_loop_shape1 np_zeros_def)
  have s0: "shape0 ?Z = shape0 Y"
    by (simp add: shape0_def one_hot_loop_length np_zeros_def)
  have row: "rows ?Z ! i = (replicate (shape1 Y) 0)[argmax_row (rows Y ! i) := 1]"
    if "i < shape0 Y" for i
    using that one_hot_loop_zeros_row [of i "shape0 Y" ?p "shape1 Y"]
    by (simp add: shape0_def)
  have wf: "wf_ndarray ?Z"
    unfolding wf_ndarray_def list_all_length
    using row s0 s1 by (simp add: shape0_def)
  have ent: "\<exists>k<shape1 Y. item Y i k = Max (set (rows Y ! i)) \<and>
              (\<forall>j<k. item Y i j < item Y i k) \<and>
              (\<forall>j<shape1 Y. item ?Z i j = (if j = k then 1 else 0))"
    if i: "i < shape0 Y" for i
  proof -
    let ?r = "rows Y ! i"
    have len: "length ?r = shape1 Y"
      using assms(1) i by (simp add: wf_ndarray_def list_all_length shape0_def)
    then have ne: "?r \<noteq> []" using assms(2) by auto
    have "argmax_row ?r < shape1 Y" using argmax_row_less [OF ne] len by simp
    moreover have "item Y i (argmax_row ?r) = Max (set ?r)"
      using argmax_row_max [OF ne] by (simp add: item_def)
    moreover have "\<forall>j<argmax_row ?r. item Y i j < item Y i (argmax_row ?r)"
      using argmax_row_first [of _ ?r] argmax_row_max [OF ne] by (simp add: item_def)
    moreover have "\<forall>j<shape1 Y. item ?Z i j = (if j = argmax_row ?r then 1 else 0)"
      using row [OF i] by (simp add: item_def nth_list_update)
    ultimately show ?thesis by blast
  qed
  show ?thesis using oh s0 s1 wf ent by blast
qed

text \<open>The tie of the specification: the row \<open>[1/2, 1/2]\<close> is encoded at index 0.\<close>

theorem one_hot_first_argmax_witness:
  "wf_ndarray (NDArray 2 [[1/2, 1/2], [1, 3]]) \<and> 0 < shape1 (NDArray 2 [[1/2, 1/2], [1, 3]]) \<and>
   one_hot (NDArray 2 [[1/2, 1/2], [1, 3]]) = Inr (NDArray 2 [[1, 0], [0, 1]])"
proof -
  have wf: "wf_ndarray (NDArray 2 [[1/2, 1/2], [1, 3]])" by (simp add: wf_ndarray_def)
  have pos: "0 < shape1 (NDArray 2 [[1/2, 1/2], [1, 3]])" by simp
  have "one_hot (NDArray 2 [[1/2, 1/2], [1, 3]]) = Inr (NDArray 2 [[1, 0], [0, 1]])"
    by code_simp
  then show ?thesis using wf pos one_hot_first_argmax [OF wf pos] by simp
qed

section \<open>Bias augmentation and the store\<close>

lemma map2_replicate_ones: "map2 (@) (replicate (length xs) [1::real]) xs = map (\<lambda>r. 1 # r) xs"
  by (induction xs) simp_all

lemma concatenate_ones: "np_concatenate1 (np_ones (shape0 x) (Suc 0)) x = Inr (with_bias x)"
  by (simp add: np_concatenate1_def np_ones_def shape0_def with_bias_def map2_replicate_ones)

lemma augment_eq:
  "augment b h X =
     (if b then (Inr (Suc (length h)), h @ [h ! X, with_bias (h ! X)])
      else (Inr (length h), h @ [h ! X]))"
  by (simp add: augment_def alloc_def concatenate_ones)

lemma augment_preserves: "a < length h \<Longrightarrow> snd (augment b h X) ! a = h ! a"
  by (simp add: augment_eq nth_append)

lemma augment_length: "length h < length (snd (augment b h X))"
  by (simp add: augment_eq)

lemma augment_ref:
  "augment b h X = (r, h1) \<Longrightarrow> \<exists>A. r = Inr A \<and> length h \<le> A \<and> A < length h1"
  by (auto simp: augment_eq split: if_splits)

lemma call2_preserves: "a < length h \<Longrightarrow> snd (call2 f h p q) ! a = h ! a"
  by (simp add: call2_def alloc_def nth_append split: sum.splits)

lemma one_step_run_keeps: "keeps_to_working_arrays (bound_method G) one_step_run"
  unfolding keeps_to_working_arrays_def one_step_run_def bound_method_def alloc_def
  by (auto simp: nth_append Let_def split: sum.splits)

section \<open>Preconditions of \<open>fit\<close> and \<open>predict\<close>\<close>

text \<open>
  C6. \<open>LinearRegression.fit\<close> with \<open>analytic_fit=False\<close> and
  \<open>optimizer_class=None\<close> raises \<open>AssertionError\<close>. No optimizer exists in this
  call, the instance is unchanged (so \<open>w\<close> has not been assigned the zero array), and
  the store holds nothing beyond the arrays of the bias augmentation.
\<close>

theorem fit_without_optimizer_asserts:
  "LinearRegression_fit self h X y False None kw =
     (Inl AssertionError, self, snd (augment (LinearRegression.add_bias self) h X))"
  by (simp add: LinearRegression_fit_def augment_eq)

text \<open>
  C1, as amended. On an instance that was never fitted, \<open>LinearRegression.predict\<close>
  raises \<open>AssertionError\<close>, with or without an override. \<open>LogisticRegression.predict\<close>
  without an override fails as well, but not by an assertion: after \<open>X\<close> has been copied
  and augmented, reading the attribute \<open>self.w\<close>, which the constructor never created,
  raises \<open>AttributeError\<close>.
\<close>

theorem unfitted_predict_fails:
  "fst (LinearRegression_predict (LinearRegression_init b) h X w_arg) = Inl AssertionError \<and>
   fst (LogisticRegression_predict (LogisticRegression_init b) h X None) = Inl AttributeError"
  by (simp add: LinearRegression_predict_def LinearRegression_init_def
      LogisticRegression_predict_def LogisticRegression_init_def augment_eq)

text \<open>
  C1 as stated fails for logistic regression: on \<open>X = [[4]]\<close> the error is not an
  assertion failure.
\<close>

theorem unfitted_logistic_predict_counterexample:
  "fst (LogisticRegression_predict (LogisticRegression_init True) [NDArray 1 [[4]]] 0 None)
     = Inl AttributeError \<and>
   fst (LogisticRegression_predict (LogisticRegression_init True) [NDArray 1 [[4]]] 0 None)
     \<noteq> Inl AssertionError"
  by (simp add: LogisticRegression_predict_def LogisticRegression_init_def augment_eq)

section \<open>The weight field\<close>

text \<open>
  C2, as amended. A new \<open>LinearRegression\<close> has \<open>w = None\<close>, and a new
  \<open>LogisticRegression\<close> has no attribute \<open>w\<close> at all. For a linear model with
  \<open>w = None\<close>: on the analytic path and on the path that fails the assertion, \<open>w\<close> is
  \<open>None\<close> after \<open>fit\<close> exactly when \<open>fit\<close> raised; on the gradient path with an
  optimizer class, \<open>w\<close> is never \<open>None\<close> after \<open>fit\<close>. On that path \<open>fit\<close>
  allocates the zero matrix \<open>Z\<close> of shape \<open>(A.columns, 1)\<close> right after the
  augmentation and binds \<open>w\<close> to it before the optimizer is constructed. When the
  constructor raises, \<open>fit\<close> raises with \<open>w\<close> bound to \<open>Z\<close>, which is all the
  store holds beyond the augmentation. When \<open>run\<close>, called on the store that holds
  \<open>Z\<close> at \<open>w\<close>, raises, \<open>fit\<close> raises with \<open>w\<close> bound to the same array and the
  store as \<open>run\<close> left it: the array holds zeros if \<open>run\<close> did not write to it.
  Every call of \<open>LogisticRegression.fit\<close> leaves the attribute \<open>w\<close> set, whether
  it raised or not.
\<close>

theorem weights_unset_until_fit:
  "LinearRegression.w (LinearRegression_init b) = None \<and>
   LogisticRegression.w (LogisticRegression_init b) = Unset \<and>
   (LinearRegression.w lin = None \<longrightarrow>
      (af \<or> oc = None \<longrightarrow>
         (LinearRegression.w (fst (snd (LinearRegression_fit lin h X y af oc kw))) = None)
           = (\<exists>e. fst (LinearRegression_fit lin h X y af oc kw) = Inl e)) \<and>
      (\<not> af \<and> oc \<noteq> None \<longrightarrow>
         LinearRegression.w (fst (snd (LinearRegression_fit lin h X y af oc kw))) \<noteq> None \<and>
         ((\<exists>e. fst (LinearRegression_fit lin h X y af oc kw) = Inl e) \<longrightarrow>
            LinearRegression.w (fst (snd (LinearRegression_fit lin h X y af oc kw)))
              = Some (length (snd (augment (LinearRegression.add_bias lin) h X)))))) \<and>
   (\<forall>A h1 Z cls. augment (LinearRegression.add_bias lin) h X = (Inr A, h1) \<and>
        Z = np_zeros (shape1 (if LinearRegression.add_bias lin then with_bias (h ! X) else h ! X)) 1 \<and>
        \<not> af \<and> oc = Some cls \<longrightarrow>
      (h1 @ [Z]) ! length h1 = Z \<and>
      (\<forall>e. cls kw = Inl e \<longrightarrow>
         LinearRegression_fit lin h X y af oc kw
           = (Inl e, lin\<lparr>LinearRegression.w := Some (length h1)\<rparr>, h1 @ [Z])) \<and>
      (\<forall>run e h3. cls kw = Inr run \<and>
           run (bound_method LinearRegression_gradient) (h1 @ [Z]) A y (length h1)
             = (RunRaised e, h3) \<longrightarrow>
         LinearRegression_fit lin h X y af oc kw
           = (Inl e, lin\<lparr>LinearRegression.w := Some (length h1)\<rparr>, h3) \<and>
         (h3 ! length h1 = (h1 @ [Z]) ! length h1 \<longrightarrow> h3 ! length h1 = Z))) \<and>
   LogisticRegression.w (fst (snd (LogisticRegression_fit lg h X y oc kw))) \<noteq> Unset"
proof -
  have init: "LinearRegression.w (LinearRegression_init b) = None"
    "LogisticRegression.w (LogisticRegression_init b) = Unset"
    by (simp_all add: LinearRegression_init_def LogisticRegression_init_def)
  have none: "LinearRegression.w lin = None \<longrightarrow>
      (af \<or> oc = None \<longrightarrow>
         (LinearRegression.w (fst (snd (LinearRegression_fit lin h X y af oc kw))) = None)
           = (\<exists>e. fst (LinearRegression_fit lin h X y af oc kw) = Inl e)) \<and>
      (\<not> af \<and> oc \<noteq> None \<longrightarrow>
         LinearRegression.w (fst (snd (LinearRegression_fit lin h X y af oc kw))) \<noteq> None \<and>
         ((\<exists>e. fst (LinearRegression_fit lin h X y af oc kw) = Inl e) \<longrightarrow>
            LinearRegression.w (fst (snd (LinearRegression_fit lin h X y af oc kw)))
              = Some (length (snd (augment (LinearRegression.add_bias lin) h X)))))"
    by (auto simp: LinearRegression_fit_def augment_eq alloc_def call2_def Let_def
        split: sum.splits option.splits prod.splits run_result.splits)
  have zeros: "\<forall>A h1 Z cls. augment (LinearRegression.add_bias lin) h X = (Inr A, h1) \<and>
        Z = np_zeros (shape1 (if LinearRegression.add_bias lin then with_bias (h ! X) else h ! X)) 1 \<and>
        \<not> af \<and> oc = Some cls \<longrightarrow>
      (h1 @ [Z]) ! length h1 = Z \<and>
      (\<forall>e. cls kw = Inl e \<longrightarrow>
         LinearRegression_fit lin h X y af oc kw
           = (Inl e, lin\<lparr>LinearRegression.w := Some (length h1)\<rparr>, h1 @ [Z])) \<and>
      (\<forall>run e h3. cls kw = Inr run \<and>
           run (bound_method LinearRegression_gradient) (h1 @ [Z]) A y (length h1)
             = (RunRaised e, h3) \<longrightarrow>
         LinearRegression_fit lin h X y af oc kw
           = (Inl e, lin\<lparr>LinearRegression.w := Some (length h1)\<rparr>, h3) \<and>
         (h3 ! length h1 = (h1 @ [Z]) ! length h1 \<longrightarrow> h3 ! length h1 = Z))"
    by (auto simp: LinearRegression_fit_def augment_eq alloc_def Let_def nth_append
        split: if_splits)
  have lg: "LogisticRegression.w (fst (snd (LogisticRegression_fit lg h X y oc kw))) \<noteq> Unset"
    by (auto simp: LogisticRegression_fit_def augment_eq alloc_def Let_def
        split: sum.splits option.splits prod.splits run_result.splits)
  show ?thesis using init none zeros lg by blast
qed

text \<open>
  C2 as stated fails: a gradient fit of a new linear model whose optimizer raises in
  \<open>run\<close> leaves \<open>w\<close> bound to the zero array of shape \<open>(2, 1)\<close>, not to \<open>None\<close>.
\<close>

theorem weights_after_failed_fit_counterexample:
  "fst (LinearRegression_fit (LinearRegression_init True)
          [NDArray 1 [[1], [2], [3]], NDArray 1 [[2], [4], [6]]] 0 1 False (Some raising_class) ())
     = Inl (Raised ''run failed'') \<and>
   LinearRegression.w (fst (snd (LinearRegression_fit (LinearRegression_init True)
          [NDArray 1 [[1], [2], [3]], NDArray 1 [[2], [4], [6]]] 0 1 False (Some raising_class) ())))
     = Some 4 \<and>
   snd (snd (LinearRegression_fit (LinearRegression_init True)
          [NDArray 1 [[1], [2], [3]], NDArray 1 [[2], [4], [6]]] 0 1 False (Some raising_class) ())) ! 4
     = NDArray 1 [[0], [0]]"
  by (simp add: LinearRegression_fit_def LinearRegression_init_def augment_eq alloc_def
      raising_class_def raising_run_def with_bias_def np_zeros_def)

text \<open>
  The optimizer that raises at once, on \<open>X = [[1], [2], [3]]\<close> with bias: \<open>fit\<close>
  raises, \<open>w\<close> is the array 4, and the store holds the zero matrix of shape
  \<open>(2, 1)\<close> there.
\<close>

theorem weights_unset_until_fit_witness:
  "LinearRegression.w (LinearRegression_init True) = None \<and>
   augment True [NDArray 1 [[1], [2], [3]], NDArray 1 [[2], [4], [6]]] 0
     = (Inr 3, [NDArray 1 [[1], [2], [3]], NDArray 1 [[2], [4], [6]],
                NDArray 1 [[1], [2], [3]], NDArray 2 [[1, 1], [1, 2], [1, 3]]]) \<and>
   raising_class () = Inr raising_run \<and>
   LinearRegression_fit (LinearRegression_init True)
       [NDArray 1 [[1], [2], [3]], NDArray 1 [[2], [4], [6]]] 0 1 False (Some raising_class) ()
     = (Inl (Raised ''run failed''), \<lparr>LinearRegression.add_bias = True, w = Some 4\<rparr>,
        [NDArray 1 [[1], [2], [3]], NDArray 1 [[2], [4], [6]],
         NDArray 1 [[1], [2], [3]], NDArray 2 [[1, 1], [1, 2], [1, 3]], NDArray 1 [[0], [0]]])"
proof -
  let ?X = "NDArray 1 [[1], [2], [3]]" and ?y = "NDArray 1 [[2], [4], [6]]"
  let ?A = "NDArray 2 [[1, 1], [1, 2], [1, 3]]"
  let ?lin = "LinearRegression_init True"
  let ?Z = "np_zeros (shape1 (if LinearRegression.add_bias ?lin then with_bias ([?X, ?y] ! 0)
                               else [?X, ?y] ! 0)) 1"
  have unfitted: "LinearRegression.w ?lin = None"
    by (simp add: LinearRegression_init_def)
  have bias: "LinearRegression.add_bias ?lin = True"
    by (simp add: LinearRegression_init_def)
  have aug: "augment True [?X, ?y] 0 = (Inr 3, [?X, ?y, ?X, ?A])"
    by (simp add: augment_eq with_bias_def)
  have cls: "raising_class () = Inr raising_run"
    by (simp add: raising_class_def)
  have Z: "?Z = NDArray 1 [[0], [0]]"
    by (simp add: bias with_bias_def np_zeros_def)
  have run: "raising_run (bound_method LinearRegression_gradient) ([?X, ?y, ?X, ?A] @ [?Z]) 3 1
               (length [?X, ?y, ?X, ?A])
             = (RunRaised (Raised ''run failed''), [?X, ?y, ?X, ?A] @ [?Z])"
    by (simp add: raising_run_def)
  have "LinearRegression_fit ?lin [?X, ?y] 0 1 False (Some raising_class) ()
          = (Inl (Raised ''run failed''),
             ?lin\<lparr>LinearRegression.w := Some (length [?X, ?y, ?X, ?A])\<rparr>, [?X, ?y, ?X, ?A] @ [?Z])"
    using weights_unset_until_fit [where lin = ?lin and af = False
        and oc = "Some raising_class" and h = "[?X, ?y]" and X = 0 and y = 1 and kw = "()"]
      aug cls run unfolding bias
    by blast
  then have "LinearRegression_fit ?lin [?X, ?y] 0 1 False (Some raising_class) ()
          = (Inl (Raised ''run failed''), \<lparr>LinearRegression.add_bias = True, w = Some 4\<rparr>,
             [?X, ?y, ?X, ?A, NDArray 1 [[0], [0]]])"
    unfolding Z by (simp add: LinearRegression_init_def)
  then show ?thesis using unfitted aug cls by simp
qed

section \<open>What a gradient-based fit returns\<close>

text \<open>
  C5. In a gradient-based fit (\<open>LinearRegression.fit\<close> with \<open>analytic_fit=False\<close>
  and an optimizer class, and \<open>LogisticRegression.fit\<close>) whose optimizer is
  constructed and whose \<open>run\<close>, called with the model's own gradient method, the
  augmented array, \<open>y\<close> and the zero weights, returns the final weights \<open>p\<close> and
  leaves \<open>w_history\<close> behind: \<open>fit\<close> returns that history, not \<open>p\<close>, and
  \<open>self.w\<close> is \<open>p\<close>.
\<close>

theorem gradient_fit_returns_history:
  "(augment (LinearRegression.add_bias lin) h X = (Inr A, h1) \<longrightarrow>
    cls kw = Inr run \<longrightarrow>
    run (bound_method LinearRegression_gradient) (h1 @ [np_zeros (shape1 (h1 ! A)) 1]) A y (length h1)
      = (RunReturned p w_history, h3) \<longrightarrow>
    LinearRegression_fit lin h X y False (Some cls) kw
      = (Inr (History w_history), lin\<lparr>LinearRegression.w := Some p\<rparr>, h3)) \<and>
   (augment (LogisticRegression.add_bias lg) h X = (Inr A, h1) \<longrightarrow>
    cls kw = Inr run \<longrightarrow>
    run (bound_method LogisticRegression_gradient)
        (h1 @ [np_zeros (shape1 (h1 ! A)) (shape1 (h1 ! y))]) A y (length h1)
      = (RunReturned p w_history, h3) \<longrightarrow>
    LogisticRegression_fit lg h X y (Some cls) kw
      = (Inr (History w_history), lg\<lparr>LogisticRegression.w := Bound p\<rparr>, h3))"
  by (simp add: LinearRegression_fit_def LogisticRegression_fit_def alloc_def)

text \<open>
  One step of gradient descent on \<open>X = [[1], [2], [3]]\<close>, \<open>y = [[2], [4], [6]]\<close>
  without bias: the gradient at 0 is \<open>-28/3\<close>, the weight after the step is \<open>14/15\<close>,
  stored in place in the array 3; \<open>fit\<close> returns the history \<open>[5]\<close>. The
  same optimizer on a two-class problem with bias: the logistic fit returns the history
  \<open>[6]\<close> and \<open>w\<close> is the array 4.
\<close>

theorem gradient_fit_returns_history_witness:
  "augment False [NDArray 1 [[1], [2], [3]], NDArray 1 [[2], [4], [6]]] 0
     = (Inr 2, [NDArray 1 [[1], [2], [3]], NDArray 1 [[2], [4], [6]], NDArray 1 [[1], [2], [3]]]) \<and>
   one_step_class () = Inr one_step_run \<and>
   LinearRegression_fit (LinearRegression_init False)
       [NDArray 1 [[1], [2], [3]], NDArray 1 [[2], [4], [6]]] 0 1 False (Some one_step_class) ()
     = (Inr (History [5]), \<lparr>LinearRegression.add_bias = False, w = Some 3\<rparr>,
        [NDArray 1 [[1], [2], [3]], NDArray 1 [[2], [4], [6]], NDArray 1 [[1], [2], [3]],
         NDArray 1 [[14 / 15]], NDArray 1 [[- (28 / 3)]], NDArray 1 [[14 / 15]]]) \<and>
   fst (LogisticRegression_fit (LogisticRegression_init True)
       [NDArray 1 [[1], [2]], NDArray 2 [[1, 0], [0, 1]]] 0 1 (Some one_step_class) ())
     = Inr (History [6]) \<and>
   LogisticRegression.w (fst (snd (LogisticRegression_fit (LogisticRegression_init True)
       [NDArray 1 [[1], [2]], NDArray 2 [[1, 0], [0, 1]]] 0 1 (Some one_step_class) ())))
     = Bound 4"
proof -
  let ?X = "NDArray 1 [[1], [2], [3]]" and ?y = "NDArray 1 [[2], [4], [6]]"
  let ?h3 = "[?X, ?y, ?X, NDArray 1 [[14 / 15]], NDArray 1 [[- (28 / 3)]], NDArray 1 [[14 / 15]]]"
  have aug: "augment (LinearRegression.add_bias (LinearRegression_init False)) [?X, ?y] 0
               = (Inr 2, [?X, ?y, ?X])"
    by (simp add: augment_eq LinearRegression_init_def)
  have cls: "one_step_class () = Inr one_step_run"
    by (simp add: one_step_class_def)
  have grad: "LinearRegression_gradient ?X ?y (NDArray 1 [[0]]) = Inr (NDArray 1 [[- (28 / 3)]])"
    by code_simp
  have sub: "np_subtract (NDArray 1 [[0]]) (map_nd (\<lambda>x. x / 10) (NDArray 1 [[- (28 / 3)]]))
               = Inr (NDArray 1 [[14 / 15]])"
    by code_simp
  have run: "one_step_run (bound_method LinearRegression_gradient)
               ([?X, ?y, ?X] @ [np_zeros (shape1 ([?X, ?y, ?X] ! 2)) 1]) 2 1 (length [?X, ?y, ?X])
               = (RunReturned 3 [5], ?h3)"
    using grad sub by (simp add: one_step_run_def bound_method_def alloc_def np_zeros_def)
  have "LinearRegression_fit (LinearRegression_init False) [?X, ?y] 0 1 False (Some one_step_class) ()
          = (Inr (History [5]), (LinearRegression_init False)\<lparr>LinearRegression.w := Some 3\<rparr>, ?h3)"
    using gradient_fit_returns_history
      [where lin = "LinearRegression_init False" and h = "[?X, ?y]" and X = 0 and A = 2
         and ?h1.0 = "[?X, ?y, ?X]" and cls = one_step_class and kw = "()" and run = one_step_run
         and y = 1 and p = 3 and w_history = "[5]" and ?h3.0 = ?h3]
      aug cls run
    by blast
  then have lin: "LinearRegression_fit (LinearRegression_init False) [?X, ?y] 0 1 False
                    (Some one_step_class) ()
          = (Inr (History [5]), \<lparr>LinearRegression.add_bias = False, w = Some 3\<rparr>, ?h3)"
    by (simp add: LinearRegression_init_def)
  let ?U = "NDArray 1 [[1], [2]]" and ?v = "NDArray 2 [[1, 0], [0, 1]]"
  let ?k1 = "[?U, ?v, ?U, NDArray 2 [[1, 1], [1, 2]]]"
  let ?run = "one_step_run (bound_method LogisticRegression_gradient)
                (?k1 @ [np_zeros (shape1 (?k1 ! 3)) (shape1 (?k1 ! 1))]) 3 1 (length ?k1)"
  have aug': "augment (LogisticRegression.add_bias (LogisticRegression_init True)) [?U, ?v] 0
                = (Inr 3, ?k1)"
    by (simp add: augment_eq LogisticRegression_init_def with_bias_def)
  have "fst ?run = RunReturned 4 [6]"
    by (simp add: np_zeros_def one_step_run_def bound_method_def LogisticRegression_gradient_def
        np_dot_def bind_err_def shape0_def item_def upt_rec softmax_def np_max1_def
        np_subtract_def np_binop_def broadcast_dim_def bitem_def map_nd_def np_divide_def
        np_sum1_def eps_def transpose_nd_def divide_scalar_def alloc_def)
  then have run': "?run = (RunReturned 4 [6], snd ?run)"
    by (metis prod.collapse)
  have lg: "LogisticRegression_fit (LogisticRegression_init True) [?U, ?v] 0 1
              (Some one_step_class) ()
          = (Inr (History [6]),
             (LogisticRegression_init True)\<lparr>LogisticRegression.w := Bound 4\<rparr>, snd ?run)"
    using gradient_fit_returns_history
      [where lg = "LogisticRegression_init True" and h = "[?U, ?v]" and X = 0 and A = 3
         and ?h1.0 = ?k1 and cls = one_step_class and kw = "()" and run = one_step_run
         and y = 1 and p = 4 and w_history = "[6]" and ?h3.0 = "snd ?run"]
      aug' cls run'
    by blast
  show ?thesis
    unfolding lin lg using aug cls by (simp add: LinearRegression_init_def)
qed

section \<open>The feature matrix is not written to\<close>

lemma LinearRegression_fit_preserves:
  assumes X: "X < length h"
    and opt: "\<And>cls run. oc = Some cls \<Longrightarrow> cls kw = Inr run \<Longrightarrow>
                keeps_to_working_arrays (bound_method LinearRegression_gradient) run"
  shows "snd (snd (LinearRegression_fit lin h X y af oc kw)) ! X = h ! X"
proof -
  obtain r h1 where aug: "augment (LinearRegression.add_bias lin) h X = (r, h1)"
    by (cases "augment (LinearRegression.add_bias lin) h X")
  then obtain A where A: "r = Inr A" "length h \<le> A" "A < length h1"
    using augment_ref by blast
  have h1: "h1 ! X = h ! X" using augment_preserves [OF X] aug by (metis snd_conv)
  have X1: "X < length h1" using A X by simp
  show ?thesis
  proof (cases af)
    case True
    then show ?thesis
      using aug A h1 call2_preserves [OF X1, of LinearRegression_analytic_fit A y]
      by (auto simp: LinearRegression_fit_def split: prod.splits sum.splits)
  next
    case False
    show ?thesis
    proof (cases oc)
      case None
      then show ?thesis using False aug A h1 by (simp add: LinearRegression_fit_def)
    next
      case (Some cls)
      show ?thesis
      proof (cases "cls kw")
        case (Inl e)
        then show ?thesis using False Some aug A h1 X1
          by (simp add: LinearRegression_fit_def alloc_def nth_append)
      next
        case (Inr run)
        let ?h2 = "h1 @ [np_zeros (shape1 (h1 ! A)) 1]"
        have "keeps_to_working_arrays (bound_method LinearRegression_gradient) run"
          using opt Some Inr by blast
        then have "snd (run (bound_method LinearRegression_gradient) ?h2 A y (length h1)) ! X
                     = ?h2 ! X"
          unfolding keeps_to_working_arrays_def using X1 A X by auto
        then show ?thesis using False Some Inr aug A h1 X1
          by (auto simp: LinearRegression_fit_def alloc_def nth_append Let_def
              split: prod.splits run_result.splits)
      qed
    qed
  qed
qed

lemma LogisticRegression_fit_preserves:
  assumes X: "X < length h"
    and opt: "\<And>cls run. oc = Some cls \<Longrightarrow> cls kw = Inr run \<Longrightarrow>
                keeps_to_working_arrays (bound_method LogisticRegression_gradient) run"
  shows "snd (snd (LogisticRegression_fit lg h X y oc kw)) ! X = h ! X"
proof -
  obtain r h1 where aug: "augment (LogisticRegression.add_bias lg) h X = (r, h1)"
    by (cases "augment (LogisticRegression.add_bias lg) h X")
  then obtain A where A: "r = Inr A" "length h \<le> A" "A < length h1"
    using augment_ref by blast
  have h1: "h1 ! X = h ! X" using augment_preserves [OF X] aug by (metis snd_conv)
  have X1: "X < length h1" using A X by simp
  show ?thesis
  proof (cases oc)
    case None
    then show ?thesis using aug A h1 X1
      by (simp add: LogisticRegression_fit_def alloc_def nth_append)
  next
    case (Some cls)
    show ?thesis
    proof (cases "cls kw")
      case (Inl e)
      then show ?thesis using Some aug A h1 X1
        by (simp add: LogisticRegression_fit_def alloc_def nth_append)
    next
      case (Inr run)
      let ?h2 = "h1 @ [np_zeros (shape1 (h1 ! A)) (shape1 (h1 ! y))]"
      have "keeps_to_working_arrays (bound_method LogisticRegression_gradient) run"
        using opt Some Inr by blast
      then have "snd (run (bound_method LogisticRegression_gradient) ?h2 A y (length h1)) ! X
                   = ?h2 ! X"
        unfolding keeps_to_working_arrays_def using X1 A X by auto
      then show ?thesis using Some Inr aug A h1 X1
        by (auto simp: LogisticRegression_fit_def alloc_def nth_append Let_def
            split: prod.splits run_result.splits)
    qed
  qed
qed

lemma LinearRegression_predict_preserves:
  assumes X: "X < length h"
  shows "snd (LinearRegression_predict lin h X w_arg) ! X = h ! X"
proof -
  have X1: "X < length (snd (augment (LinearRegression.add_bias lin) h X))"
    using X augment_length [of h "LinearRegression.add_bias lin" X] by simp
  show ?thesis
    using augment_preserves [OF X, of "LinearRegression.add_bias lin" X] call2_preserves [OF X1]
    by (auto simp: LinearRegression_predict_def split: option.splits prod.splits sum.splits)
qed

lemma LogisticRegression_predict_preserves:
  assumes X: "X < length h"
  shows "snd (LogisticRegression_predict lg h X w_arg) ! X = h ! X"
proof -
  have X1: "X < length (snd (augment (LogisticRegression.add_bias lg) h X))"
    using X augment_length [of h "LogisticRegression.add_bias lg" X] by simp
  show ?thesis
    using augment_preserves [OF X, of "LogisticRegression.add_bias lg" X] call2_preserves [OF X1]
    by (auto simp: LogisticRegression_predict_def
        split: option.splits prod.splits sum.splits attribute.splits)
qed

text \<open>
  C7. Let \<open>X\<close> be a reference to an array of the store. After \<open>fit\<close> or
  \<open>predict\<close> of either model, whether the call returned or raised, the store holds
  the same array at \<open>X\<close> as before: the models read \<open>X\<close> only to copy it, and hand
  the optimizer the copy. The optimizer is outside \<open>models.py\<close>; it is taken to keep
  to its working arrays, so it may overwrite the copy \<open>A\<close> and the weights in place.
\<close>

theorem feature_matrix_not_mutated:
  assumes "X < length h"
    and "\<forall>cls run. oc = Some cls \<and> cls kw = Inr run \<longrightarrow>
           keeps_to_working_arrays (bound_method LinearRegression_gradient) run \<and>
           keeps_to_working_arrays (bound_method LogisticRegression_gradient) run"
  shows "snd (snd (LinearRegression_fit lin h X y af oc kw)) ! X = h ! X \<and>
         snd (LinearRegression_predict lin h X w_arg) ! X = h ! X \<and>
         snd (snd (LogisticRegression_fit lg h X y oc kw)) ! X = h ! X \<and>
         snd (LogisticRegression_predict lg h X w_arg) ! X = h ! X"
  using assms LinearRegression_fit_preserves [of X h oc kw lin y af]
    LogisticRegression_fit_preserves [of X h oc kw lg y]
    LinearRegression_predict_preserves [of X h lin w_arg]
    LogisticRegression_predict_preserves [of X h lg w_arg]
  by blast

text \<open>
  Without bias the optimizer receives the plain copy of \<open>X\<close>; the one-step optimizer
  overwrites the weights in place, and \<open>X\<close> is as before.
\<close>

theorem feature_matrix_not_mutated_witness:
  "(0::nat) < length [NDArray 1 [[1], [2], [3]], NDArray 1 [[2], [4], [6]]] \<and>
   keeps_to_working_arrays (bound_method LinearRegression_gradient) one_step_run \<and>
   keeps_to_working_arrays (bound_method LogisticRegression_gradient) one_step_run \<and>
   snd (snd (LinearRegression_fit (LinearRegression_init False)
       [NDArray 1 [[1], [2], [3]], NDArray 1 [[2], [4], [6]]] 0 1 False (Some one_step_class) ())) ! 0
     = NDArray 1 [[1], [2], [3]] \<and>
   snd (snd (LogisticRegression_fit (LogisticRegression_init False)
       [NDArray 1 [[1], [2], [3]], NDArray 1 [[2], [4], [6]]] 0 1 (Some one_step_class) ())) ! 0
     = NDArray 1 [[1], [2], [3]]"
proof -
  let ?h = "[NDArray 1 [[1], [2], [3]], NDArray 1 [[2], [4], [6]]]"
  have len: "(0::nat) < length ?h" by simp
  have keeps: "\<forall>cls run. Some one_step_class = Some cls \<and> cls () = Inr run \<longrightarrow>
           keeps_to_working_arrays (bound_method LinearRegression_gradient) run \<and>
           keeps_to_working_arrays (bound_method LogisticRegression_gradient) run"
    by (auto simp: one_step_class_def one_step_run_keeps)
  show ?thesis
    using len one_step_run_keeps
      feature_matrix_not_mutated [OF len keeps, of "LinearRegression_init False" 1 False None
        "LogisticRegression_init False"]
    by simp
qed

section \<open>The helpers: softmax\<close>


lemma item_table:
  "i < n \<Longrightarrow> j < m \<Longrightarrow> item (NDArray m (map (\<lambda>i. map (F i) [0..<m]) [0..<n])) i j = F i j"
  by (simp add: item_def)

lemma np_binop_keepdims:
  assumes "shape0 c = shape0 a" and "shape1 c = 1"
  shows "np_binop f a c =
     Inr (NDArray (shape1 a)
       (map (\<lambda>i. map (\<lambda>j. f (item a i j) (item c i 0)) [0..<shape1 a]) [0..<shape0 a]))"
proof -
  have bd0: "broadcast_dim (shape0 a) (shape0 c) = Some (shape0 a)"
    using assms by (simp add: broadcast_dim_def)
  have bd1: "broadcast_dim (shape1 a) (shape1 c) = Some (shape1 a)"
    using assms by (simp add: broadcast_dim_def)
  have "f (bitem a i j) (bitem c i j) = f (item a i j) (item c i 0)"
    if "i < shape0 a" "j < shape1 a" for i j
    using that assms by (auto simp: bitem_def)
  then show ?thesis
    by (simp add: np_binop_def bd0 bd1)
qed

lemma np_max1_result:
  "0 < shape1 X \<Longrightarrow> np_max1 X = Inr (NDArray 1 (map (\<lambda>r. [Max (set r)]) (rows X)))"
  by (simp add: np_max1_def)

lemma shifted:
  assumes "0 < shape1 X"
  shows "bind_err (np_max1 X) (np_subtract X) =
     Inr (NDArray (shape1 X)
       (map (\<lambda>i. map (\<lambda>j. item X i j - row_max X i) [0..<shape1 X]) [0..<shape0 X]))"
proof -
  let ?mx = "NDArray 1 (map (\<lambda>r. [Max (set r)]) (rows X))"
  have "np_subtract X ?mx = Inr (NDArray (shape1 X)
       (map (\<lambda>i. map (\<lambda>j. item X i j - item ?mx i 0) [0..<shape1 X]) [0..<shape0 X]))"
    unfolding np_subtract_def by (rule np_binop_keepdims) (simp_all add: shape0_def)
  moreover have "item ?mx i 0 = row_max X i" if "i < shape0 X" for i
    using that by (simp add: item_def row_max_def shape0_def)
  ultimately show ?thesis
    using assms by (simp add: np_max1_result bind_err_def)
qed

lemma sum_list_upt: "(\<Sum>k\<leftarrow>[0..<m]. f k) = (\<Sum>k<m. (f k :: real))"
  by (simp add: interv_sum_list_conv_sum_set_nat atLeast0LessThan)

lemma softmax_result:
  assumes "0 < shape1 X"
  shows "softmax X = Inr (NDArray (shape1 X)
       (map (\<lambda>i. map (\<lambda>j. softmax_entry X i j) [0..<shape1 X]) [0..<shape0 X]))"
proof -
  let ?m = "shape1 X" and ?n = "shape0 X"
  let ?d = "NDArray ?m (map (\<lambda>i. map (\<lambda>j. item X i j - row_max X i) [0..<?m]) [0..<?n])"
  let ?e = "map_nd exp ?d"
  let ?den = "map_nd (\<lambda>s. s + eps) (np_sum1 ?e)"
  have sm: "softmax X = np_divide ?e ?den"
    using shifted [OF assms] np_max1_result [OF assms]
    by (simp add: softmax_def bind_err_def)
  have e: "?e = NDArray ?m (map (\<lambda>i. map (\<lambda>j. exp (item X i j - row_max X i)) [0..<?m]) [0..<?n])"
    by (simp add: map_nd_def comp_def)
  have den: "?den = NDArray 1 (map (\<lambda>i. [(\<Sum>k<?m. exp (item X i k - row_max X i)) + eps]) [0..<?n])"
    by (simp add: e np_sum1_def map_nd_def comp_def sum_list_upt)
  have pos: "0 < (\<Sum>k<?m. exp (item X i k - row_max X i)) + eps" for i
  proof -
    have "0 \<le> (\<Sum>k<?m. exp (item X i k - row_max X i))" by (simp add: sum_nonneg)
    then show ?thesis by (simp add: eps_def add_nonneg_pos)
  qed
  have nz: "0 \<notin> set (concat (rows ?den))"
    unfolding den using pos by (auto simp: less_le)
  have "np_divide ?e ?den = np_binop (\<lambda>x y. x / y) ?e ?den"
    using nz by (simp add: np_divide_def)
  also have "\<dots> = Inr (NDArray (shape1 ?e)
       (map (\<lambda>i. map (\<lambda>j. item ?e i j / item ?den i 0) [0..<shape1 ?e]) [0..<shape0 ?e]))"
    by (rule np_binop_keepdims) (simp_all add: shape0_def map_nd_def np_sum1_def)
  also have "\<dots> = Inr (NDArray ?m
       (map (\<lambda>i. map (\<lambda>j. softmax_entry X i j) [0..<?m]) [0..<?n]))"
  proof -
    have s1: "shape1 ?e = ?m" by (simp add: map_nd_def)
    have s0: "shape0 ?e = ?n" by (simp add: map_nd_def shape0_def)
    have eI: "item ?e i j = exp (item X i j - row_max X i)" if "i < ?n" "j < ?m" for i j
      using that by (simp add: map_nd_def item_def)
    have dI: "item ?den i 0 = (\<Sum>k<?m. exp (item X i k - row_max X i)) + eps" if "i < ?n" for i
      using that by (subst den) (simp add: item_def)
    have "item ?e i j / item ?den i 0 = softmax_entry X i j" if "i < ?n" "j < ?m" for i j
      using that eI dI by (simp add: softmax_entry_def eps_def)
    then show ?thesis unfolding s1 s0 by simp
  qed
  finally show ?thesis using sm by simp
qed


lemma softmax_row_sum:
  assumes "0 < shape1 X"
  shows "(\<Sum>j<shape1 X. softmax_entry X i j)
           = (\<Sum>k<shape1 X. exp (item X i k - row_max X i))
               / ((\<Sum>k<shape1 X. exp (item X i k - row_max X i)) + 1 / 10 ^ 8)"
  by (simp add: softmax_entry_def sum_divide_distrib)

lemma exp_sum_ge_1:
  assumes wf: "wf_ndarray X" and m: "0 < shape1 X" and i: "i < shape0 X"
  shows "1 \<le> (\<Sum>k<shape1 X. exp (item X i k - row_max X i))"
proof -
  let ?r = "rows X ! i"
  have len: "length ?r = shape1 X"
    using wf i by (simp add: wf_ndarray_def list_all_length shape0_def)
  then have "?r \<noteq> []" using m by auto
  then have "Max (set ?r) \<in> set ?r" by simp
  then obtain k where k: "k < shape1 X" "?r ! k = Max (set ?r)"
    using len by (metis in_set_conv_nth)
  have "exp (item X i k - row_max X i) \<le> (\<Sum>k<shape1 X. exp (item X i k - row_max X i))"
    using k(1) by (intro member_le_sum) simp_all
  moreover have "exp (item X i k - row_max X i) = 1"
    using k(2) by (simp add: item_def row_max_def)
  ultimately show ?thesis by simp
qed

lemma shifted_fl:
  assumes "0 < shape1 X"
  shows "bind_err (np_max1 X) (np_binop f X) =
     Inr (NDArray (shape1 X)
       (map (\<lambda>i. map (\<lambda>j. f (item X i j) (row_max X i)) [0..<shape1 X]) [0..<shape0 X]))"
proof -
  let ?mx = "NDArray 1 (map (\<lambda>r. [Max (set r)]) (rows X))"
  have "np_binop f X ?mx = Inr (NDArray (shape1 X)
       (map (\<lambda>i. map (\<lambda>j. f (item X i j) (item ?mx i 0)) [0..<shape1 X]) [0..<shape0 X]))"
    by (rule np_binop_keepdims) (simp_all add: shape0_def)
  moreover have "item ?mx i 0 = row_max X i" if "i < shape0 X" for i
    using that by (simp add: item_def row_max_def shape0_def)
  ultimately show ?thesis
    using assms by (simp add: np_max1_result bind_err_def)
qed

lemma sum_nonneg_with_one:
  assumes wf: "wf_ndarray X" and m: "0 < shape1 X" and i: "i < shape0 X"
    and ar: "rounds_like_ieee ar"
  shows "1 \<le> fsum ar (map (\<lambda>k. fexp ar (fsub ar (item X i k) (row_max X i))) [0..<shape1 X])"
proof -
  let ?r = "rows X ! i"
  let ?xs = "map (\<lambda>k. fexp ar (fsub ar (item X i k) (row_max X i))) [0..<shape1 X]"
  have len: "length ?r = shape1 X"
    using wf i by (simp add: wf_ndarray_def list_all_length shape0_def)
  then have "?r \<noteq> []" using m by auto
  then have "Max (set ?r) \<in> set ?r" by simp
  then obtain k where k: "k < shape1 X" "?r ! k = Max (set ?r)"
    using len by (metis in_set_conv_nth)
  have "fexp ar (fsub ar (item X i k) (row_max X i)) = 1"
    using k(2) ar by (simp add: item_def row_max_def rounds_like_ieee_def)
  then have "1 \<in> set ?xs" using k(1) by (force simp: image_iff)
  moreover have "\<forall>x\<in>set ?xs. 0 \<le> x" using ar by (auto simp: rounds_like_ieee_def)
  ultimately show ?thesis using ar unfolding rounds_like_ieee_def by blast
qed

lemma softmax_fl_result:
  assumes wf: "wf_ndarray X" and m: "0 < shape1 X" and ar: "rounds_like_ieee ar"
  shows "softmax_fl ar X = Inr (NDArray (shape1 X)
       (map (\<lambda>i. map (\<lambda>j. softmax_fl_entry ar X i j) [0..<shape1 X]) [0..<shape0 X]))"
proof -
  let ?m = "shape1 X" and ?n = "shape0 X"
  let ?E = "\<lambda>i k. fexp ar (fsub ar (item X i k) (row_max X i))"
  let ?d = "NDArray ?m (map (\<lambda>i. map (\<lambda>j. fsub ar (item X i j) (row_max X i)) [0..<?m]) [0..<?n])"
  let ?e = "map_nd (fexp ar) ?d"
  let ?den = "map_nd (\<lambda>s. fadd ar s (feps ar)) (sum1_fl ar ?e)"
  let ?D = "\<lambda>i. fadd ar (fsum ar (map (?E i) [0..<?m])) (feps ar)"
  have sm: "softmax_fl ar X = divide_fl ar ?e ?den"
    using shifted_fl [OF m, of "fsub ar"] np_max1_result [OF m]
    by (simp add: softmax_fl_def bind_err_def)
  have e: "?e = NDArray ?m (map (\<lambda>i. map (?E i) [0..<?m]) [0..<?n])"
    by (simp add: map_nd_def comp_def)
  have den: "?den = NDArray 1 (map (\<lambda>i. [?D i]) [0..<?n])"
    by (simp add: e sum1_fl_def map_nd_def comp_def)
  have pos: "0 < ?D i" if "i < ?n" for i
    using sum_nonneg_with_one [OF wf m that ar] ar unfolding rounds_like_ieee_def by blast
  have nz: "0 \<notin> set (concat (rows ?den))"
    unfolding den using pos by (auto simp: less_le)
  have "divide_fl ar ?e ?den = np_binop (fdiv ar) ?e ?den"
    using nz by (simp add: divide_fl_def)
  also have "\<dots> = Inr (NDArray (shape1 ?e)
       (map (\<lambda>i. map (\<lambda>j. fdiv ar (item ?e i j) (item ?den i 0)) [0..<shape1 ?e]) [0..<shape0 ?e]))"
    by (rule np_binop_keepdims) (simp_all add: shape0_def map_nd_def sum1_fl_def)
  also have "\<dots> = Inr (NDArray ?m
       (map (\<lambda>i. map (\<lambda>j. softmax_fl_entry ar X i j) [0..<?m]) [0..<?n]))"
  proof -
    have s1: "shape1 ?e = ?m" by (simp add: map_nd_def)
    have s0: "shape0 ?e = ?n" by (simp add: map_nd_def shape0_def)
    have eI: "item ?e i j = ?E i j" if "i < ?n" "j < ?m" for i j
      using that by (simp add: map_nd_def item_def)
    have dI: "item ?den i 0 = ?D i" if "i < ?n" for i
      using that by (subst den) (simp add: item_def)
    have "fdiv ar (item ?e i j) (item ?den i 0) = softmax_fl_entry ar X i j"
      if "i < ?n" "j < ?m" for i j
      using that eI dI by (simp add: softmax_fl_entry_def)
    then show ?thesis unfolding s1 s0 by simp
  qed
  finally show ?thesis using sm by simp
qed

lemma sum_list_ge_one:
  fixes xs :: "real list"
  assumes "\<forall>x\<in>set xs. 0 \<le> x" and "1 \<in> set xs"
  shows "1 \<le> sum_list xs"
  using assms
proof (induction xs)
  case Nil
  then show ?case by simp
next
  case (Cons a xs)
  have nn: "0 \<le> sum_list xs" using Cons.prems(1) by (simp add: sum_list_nonneg)
  show ?case
  proof (cases "a = 1")
    case True
    then show ?thesis using nn by simp
  next
    case False
    then have "1 \<le> sum_list xs" using Cons by simp
    moreover have "0 \<le> a" using Cons.prems(1) by simp
    ultimately show ?thesis by simp
  qed
qed

lemma exact_rounds_like_ieee: "rounds_like_ieee exact_arith"
  by (simp add: rounds_like_ieee_def exact_arith_def sum_list_ge_one)

lemma absorbing_rounds_like_ieee: "rounds_like_ieee absorbing_arith"
  by (simp add: rounds_like_ieee_def absorbing_arith_def sum_list_ge_one)

lemma softmax_fl_entry_exact: "softmax_fl_entry exact_arith X i j = softmax_entry X i j"
  by (simp add: softmax_fl_entry_def softmax_entry_def exact_arith_def sum_list_upt)

text \<open>
  C9, as amended. For every two-dimensional array \<open>X\<close> of finite values with at
  least one column, and every arithmetic that rounds like IEEE arithmetic,
  \<open>softmax X\<close> returns an array of the shape of \<open>X\<close>; the entry \<open>(i, j)\<close> is the
  exponential of \<open>X[i, j]\<close> minus the maximum of row \<open>i\<close>, divided by the sum of these
  exponentials over the row plus \<open>eps\<close>, each operation being that of the arithmetic.
  In exact arithmetic every row of the result sums to less than 1; under rounding no
  such bound is stated.
\<close>

theorem softmax_fl_rows:
  assumes "wf_ndarray X" and "0 < shape1 X" and "rounds_like_ieee ar"
  shows "\<exists>S. softmax_fl ar X = Inr S \<and> shape0 S = shape0 X \<and> shape1 S = shape1 X \<and>
           wf_ndarray S \<and>
           (\<forall>i<shape0 X. \<forall>j<shape1 X. item S i j =
              fdiv ar (fexp ar (fsub ar (item X i j) (Max (set (rows X ! i)))))
                (fadd ar
                   (fsum ar (map (\<lambda>k. fexp ar (fsub ar (item X i k) (Max (set (rows X ! i)))))
                               [0..<shape1 X]))
                   (feps ar))) \<and>
           (ar = exact_arith \<longrightarrow>
              softmax X = Inr S \<and> (\<forall>i<shape0 X. sum_list (rows S ! i) < 1))"
proof -
  let ?m = "shape1 X" and ?n = "shape0 X"
  let ?S = "NDArray ?m (map (\<lambda>i. map (\<lambda>j. softmax_fl_entry ar X i j) [0..<?m]) [0..<?n])"
  have sm: "softmax_fl ar X = Inr ?S" by (rule softmax_fl_result [OF assms])
  have s0: "shape0 ?S = ?n" by (simp add: shape0_def)
  have s1: "shape1 ?S = ?m" by simp
  have wf: "wf_ndarray ?S" by (simp add: wf_ndarray_def list_all_length)
  have ent: "\<forall>i<?n. \<forall>j<?m. item ?S i j =
              fdiv ar (fexp ar (fsub ar (item X i j) (Max (set (rows X ! i)))))
                (fadd ar
                   (fsum ar (map (\<lambda>k. fexp ar (fsub ar (item X i k) (Max (set (rows X ! i)))))
                               [0..<?m]))
                   (feps ar))"
    by (simp add: item_def softmax_fl_entry_def row_max_def)
  have exact: "softmax X = Inr ?S \<and> (\<forall>i<?n. sum_list (rows ?S ! i) < 1)" if ar: "ar = exact_arith"
  proof -
    have S: "?S = NDArray ?m (map (\<lambda>i. map (\<lambda>j. softmax_entry X i j) [0..<?m]) [0..<?n])"
      unfolding ar by (simp add: softmax_fl_entry_exact)
    have "softmax X = Inr ?S"
      unfolding S by (rule softmax_result [OF assms(2)])
    moreover have "sum_list (rows ?S ! i) < 1" if i: "i < ?n" for i
    proof -
      let ?T = "\<Sum>k<?m. exp (item X i k - row_max X i)"
      have "sum_list (rows ?S ! i) = (\<Sum>j<?m. softmax_entry X i j)"
        unfolding S using i by (simp add: sum_list_upt)
      then have rs: "sum_list (rows ?S ! i) = ?T / (?T + 1 / 10 ^ 8)"
        using softmax_row_sum [OF assms(2)] by simp
      have "1 \<le> ?T" by (rule exp_sum_ge_1 [OF assms(1,2) i])
      then have "?T / (?T + 1 / 10 ^ 8) < 1" by simp
      then show ?thesis using rs by simp
    qed
    ultimately show ?thesis by blast
  qed
  show ?thesis using sm s0 s1 wf ent exact by blast
qed

text \<open>
  The row \<open>[0, 0]\<close>. In exact arithmetic both entries are \<open>1 / (2 + 1e-8)\<close> and the
  row sums to less than 1. In the arithmetic that absorbs small addends \<open>2 + 1e-8\<close>
  is 2, both entries are \<open>1/2\<close> and the row sums to 1.
\<close>

theorem softmax_fl_rows_witness:
  "wf_ndarray (NDArray 2 [[0, 0]]) \<and> 0 < shape1 (NDArray 2 [[0, 0]]) \<and>
   rounds_like_ieee exact_arith \<and> rounds_like_ieee absorbing_arith \<and>
   softmax_fl exact_arith (NDArray 2 [[0, 0]])
     = Inr (NDArray 2 [[100000000 / 200000001, 100000000 / 200000001]]) \<and>
   softmax (NDArray 2 [[0, 0]])
     = Inr (NDArray 2 [[100000000 / 200000001, 100000000 / 200000001]]) \<and>
   sum_list [100000000 / 200000001, 100000000 / 200000001] < (1::real) \<and>
   softmax_fl absorbing_arith (NDArray 2 [[0, 0]]) = Inr (NDArray 2 [[1 / 2, 1 / 2]]) \<and>
   sum_list [1 / 2, 1 / 2] = (1::real)"
proof -
  let ?X = "NDArray 2 [[0, 0]]"
  have wf: "wf_ndarray ?X" by (simp add: wf_ndarray_def)
  have pos: "0 < shape1 ?X" by simp
  from softmax_fl_rows [OF wf pos exact_rounds_like_ieee]
  obtain S where S: "softmax_fl exact_arith ?X = Inr S" "softmax ?X = Inr S"
      "\<forall>i<shape0 ?X. sum_list (rows S ! i) < 1"
    by blast
  have val: "softmax ?X = Inr (NDArray 2 [[100000000 / 200000001, 100000000 / 200000001]])"
    by (simp add: softmax_result softmax_entry_def row_max_def item_def shape0_def
        upt_rec lessThan_Suc numeral_2_eq_2)
  then have Sv: "S = NDArray 2 [[100000000 / 200000001, 100000000 / 200000001]]"
    using S(2) by simp
  have lt: "sum_list [100000000 / 200000001, 100000000 / 200000001] < (1::real)"
    using S(3) unfolding Sv by (simp add: shape0_def)
  from softmax_fl_rows [OF wf pos absorbing_rounds_like_ieee]
  obtain R where R: "softmax_fl absorbing_arith ?X = Inr R" "shape0 R = shape0 ?X"
      "shape1 R = shape1 ?X" "wf_ndarray R"
      "\<forall>i<shape0 ?X. \<forall>j<shape1 ?X. item R i j =
         fdiv absorbing_arith
           (fexp absorbing_arith (fsub absorbing_arith (item ?X i j) (Max (set (rows ?X ! i)))))
           (fadd absorbing_arith
              (fsum absorbing_arith
                 (map (\<lambda>k. fexp absorbing_arith
                             (fsub absorbing_arith (item ?X i k) (Max (set (rows ?X ! i)))))
                    [0..<shape1 ?X]))
              (feps absorbing_arith))"
    by blast
  have absorbed: "softmax_fl absorbing_arith ?X = Inr (NDArray 2 [[1 / 2, 1 / 2]])"
    unfolding softmax_fl_result [OF wf pos absorbing_rounds_like_ieee]
    by (simp add: softmax_fl_entry_def row_max_def item_def shape0_def absorbing_arith_def
        upt_rec)
  show ?thesis
    using wf pos exact_rounds_like_ieee absorbing_rounds_like_ieee S(1) val Sv lt absorbed R(1)
    by simp
qed

text \<open>
  C9 as stated fails on an array without columns: \<open>np.max\<close> over an empty axis raises
  \<open>ValueError\<close>, so \<open>softmax\<close> of the array of shape \<open>(1, 0)\<close> returns nothing,
  in either arithmetic.
\<close>

theorem softmax_empty_rows_counterexample:
  "softmax (NDArray 0 [[]]) = Inl ValueError \<and> wf_ndarray (NDArray 0 [[]]) \<and>
   softmax_fl exact_arith (NDArray 0 [[]]) = Inl ValueError \<and>
   softmax_fl absorbing_arith (NDArray 0 [[]]) = Inl ValueError"
  by (simp add: softmax_def softmax_fl_def np_max1_def bind_err_def wf_ndarray_def)

section \<open>The analytic fit in exact arithmetic\<close>

text \<open>
  In exact arithmetic a new \<open>LinearRegression\<close> with bias, fitted analytically on
  \<open>X = [[1], [2], [3]]\<close> and \<open>y = [[2], [4], [6]]\<close>, returns and stores the weights
  \<open>[[0], [2]]\<close>, and \<open>predict\<close> on \<open>[[4]]\<close> then returns \<open>[[8]]\<close>:
  \<open>analytic_fit\<close> on the augmented matrix \<open>A = [[1, 1], [1, 2], [1, 3]]\<close> inverts
  \<open>A\<^sup>T A = [[3, 6], [6, 14]]\<close> to \<open>[[7/3, -1], [-1, 1/2]]\<close> and multiplies by
  \<open>A\<^sup>T\<close> and \<open>y\<close>. The entry \<open>7/3\<close> has no binary floating-point value, so the
  program, which rounds, returns these numbers only approximately; its rounding is not
  represented here. The store holds \<open>X\<close>, \<open>y\<close> and \<open>[[4]]\<close> at 0, 1 and 2.
\<close>

lemma analytic_fit_exact_arithmetic:
  "LinearRegression_fit (LinearRegression_init True)
     [NDArray 1 [[1], [2], [3]], NDArray 1 [[2], [4], [6]], NDArray 1 [[4]]] 0 1 True oc kw
     = (Inr (Weights 5), \<lparr>LinearRegression.add_bias = True, w = Some 5\<rparr>,
        [NDArray 1 [[1], [2], [3]], NDArray 1 [[2], [4], [6]], NDArray 1 [[4]],
         NDArray 1 [[1], [2], [3]], NDArray 2 [[1, 1], [1, 2], [1, 3]], NDArray 1 [[0], [2]]]) \<and>
   LinearRegression_predict \<lparr>LinearRegression.add_bias = True, w = Some 5\<rparr>
     [NDArray 1 [[1], [2], [3]], NDArray 1 [[2], [4], [6]], NDArray 1 [[4]],
      NDArray 1 [[1], [2], [3]], NDArray 2 [[1, 1], [1, 2], [1, 3]], NDArray 1 [[0], [2]]] 2 None
     = (Inr 8,
        [NDArray 1 [[1], [2], [3]], NDArray 1 [[2], [4], [6]], NDArray 1 [[4]],
         NDArray 1 [[1], [2], [3]], NDArray 2 [[1, 1], [1, 2], [1, 3]], NDArray 1 [[0], [2]],
         NDArray 1 [[4]], NDArray 2 [[1, 4]], NDArray 1 [[8]]]) \<and>
   LinearRegression_analytic_fit (NDArray 2 [[1, 1], [1, 2], [1, 3]]) (NDArray 1 [[2], [4], [6]])
     = Inr (NDArray 1 [[0], [2]]) \<and>
   np_dot (transpose_nd (NDArray 2 [[1, 1], [1, 2], [1, 3]])) (NDArray 2 [[1, 1], [1, 2], [1, 3]])
     = Inr (NDArray 2 [[3, 6], [6, 14]]) \<and>
   np_linalg_inv (NDArray 2 [[3, 6], [6, 14]]) = Inr (NDArray 2 [[7 / 3, - 1], [- 1, 1 / 2]]) \<and>
   np_dot (NDArray 2 [[7 / 3, - 1], [- 1, 1 / 2]]) (NDArray 2 [[3, 6], [6, 14]])
     = Inr (NDArray 2 [[1, 0], [0, 1]]) \<and>
   np_dot (NDArray 2 [[7 / 3, - 1], [- 1, 1 / 2]])
       (transpose_nd (NDArray 2 [[1, 1], [1, 2], [1, 3]]))
     = Inr (NDArray 3 [[4 / 3, 1 / 3, - (2 / 3)], [- (1 / 2), 0, 1 / 2]]) \<and>
   np_dot (NDArray 3 [[4 / 3, 1 / 3, - (2 / 3)], [- (1 / 2), 0, 1 / 2]]) (NDArray 1 [[2], [4], [6]])
     = Inr (NDArray 1 [[0], [2]])"
proof -
  let ?A = "NDArray 2 [[1, 1], [1, 2], [1, 3]]" and ?y = "NDArray 1 [[2], [4], [6]]"
  have xtx: "np_dot (transpose_nd ?A) ?A = Inr (NDArray 2 [[3, 6], [6, 14]])"
    by code_simp
  have inv: "np_linalg_inv (NDArray 2 [[3, 6], [6, 14]]) = Inr (NDArray 2 [[7 / 3, - 1], [- 1, 1 / 2]])"
    by code_simp
  have unit: "np_dot (NDArray 2 [[7 / 3, - 1], [- 1, 1 / 2]]) (NDArray 2 [[3, 6], [6, 14]])
     = Inr (NDArray 2 [[1, 0], [0, 1]])"
    by code_simp
  have pinv: "np_dot (NDArray 2 [[7 / 3, - 1], [- 1, 1 / 2]]) (transpose_nd ?A)
     = Inr (NDArray 3 [[4 / 3, 1 / 3, - (2 / 3)], [- (1 / 2), 0, 1 / 2]])"
    by code_simp
  have sol: "np_dot (NDArray 3 [[4 / 3, 1 / 3, - (2 / 3)], [- (1 / 2), 0, 1 / 2]]) ?y
     = Inr (NDArray 1 [[0], [2]])"
    by code_simp
  have af: "LinearRegression_analytic_fit ?A ?y = Inr (NDArray 1 [[0], [2]])"
    by (simp only: LinearRegression_analytic_fit_def xtx inv pinv sol bind_err_def sum.case)
  have pr: "np_dot (NDArray 2 [[1, 4]]) (NDArray 1 [[0], [2]]) = Inr (NDArray 1 [[8]])"
    by code_simp
  have fit: "LinearRegression_fit (LinearRegression_init True)
     [NDArray 1 [[1], [2], [3]], ?y, NDArray 1 [[4]]] 0 1 True oc kw
     = (Inr (Weights 5), \<lparr>LinearRegression.add_bias = True, w = Some 5\<rparr>,
        [NDArray 1 [[1], [2], [3]], ?y, NDArray 1 [[4]],
         NDArray 1 [[1], [2], [3]], ?A, NDArray 1 [[0], [2]]])"
    using af
    by (simp add: LinearRegression_fit_def LinearRegression_init_def augment_eq with_bias_def
        call2_def alloc_def del: One_nat_def)
  have predict: "LinearRegression_predict \<lparr>LinearRegression.add_bias = True, w = Some 5\<rparr>
     [NDArray 1 [[1], [2], [3]], ?y, NDArray 1 [[4]],
      NDArray 1 [[1], [2], [3]], ?A, NDArray 1 [[0], [2]]] 2 None
     = (Inr 8,
        [NDArray 1 [[1], [2], [3]], ?y, NDArray 1 [[4]],
         NDArray 1 [[1], [2], [3]], ?A, NDArray 1 [[0], [2]],
         NDArray 1 [[4]], NDArray 2 [[1, 4]], NDArray 1 [[8]]])"
    using pr
    by (simp add: LinearRegression_predict_def augment_eq with_bias_def call2_def alloc_def
        del: One_nat_def)
  show ?thesis
    using fit predict af xtx inv unit pinv sol by (simp only: simp_thms)
qed

section \<open>Prediction with an override on a model that was never fitted\<close>

lemma one_hot_softmax_dot_succeeds:
  assumes "shape1 A = shape0 W" and "0 < shape1 W"
  shows "\<exists>z s P. np_dot A W = Inr z \<and> softmax z = Inr s \<and> one_hot s = Inr P \<and>
           one_hot_softmax_dot A W = Inr P"
proof -
  obtain z where z: "np_dot A W = Inr z" "shape1 z = shape1 W"
    using assms(1) by (simp add: np_dot_def)
  have zpos: "0 < shape1 z" using z(2) assms(2) by simp
  obtain s where s: "softmax z = Inr s" "shape1 s = shape1 z"
    using softmax_result [OF zpos] by simp
  have spos: "0 < shape1 s" using s(2) zpos by simp
  obtain P where P: "one_hot s = Inr P"
    using one_hot_result [OF spos] by simp
  show ?thesis
    using z s P by (simp add: one_hot_softmax_dot_def bind_err_def)
qed

text \<open>
  C10. On a \<open>LogisticRegression\<close> that was never fitted, \<open>predict\<close> with an
  override \<open>W\<close> whose row count is the column count of the augmented input \<open>A\<close> and
  which has at least one column returns a new array, \<open>one_hot(softmax(A \<cdot> W))\<close>, each
  of the three steps succeeding; no check of \<open>self.w\<close> is made. On a
  \<open>LinearRegression\<close> that was never fitted, \<open>predict\<close> with the same override
  raises \<open>AssertionError\<close>.
\<close>

theorem override_predict_on_unfitted:
  assumes "W < length h"
    and "shape0 (h ! W) = (if b then Suc (shape1 (h ! X)) else shape1 (h ! X))"
    and "0 < shape1 (h ! W)"
  shows "(\<exists>z s P. np_dot (if b then with_bias (h ! X) else h ! X) (h ! W) = Inr z \<and>
            softmax z = Inr s \<and> one_hot s = Inr P \<and>
            LogisticRegression_predict (LogisticRegression_init b) h X (Some W)
              = (Inr (length (snd (augment b h X))), snd (augment b h X) @ [P])) \<and>
         fst (LinearRegression_predict (LinearRegression_init b) h X (Some W)) = Inl AssertionError"
proof -
  let ?A = "if b then with_bias (h ! X) else h ! X"
  let ?h1 = "snd (augment b h X)"
  have shp: "shape1 ?A = shape0 (h ! W)" using assms(2) by (simp add: with_bias_def)
  obtain z s P where zsp: "np_dot ?A (h ! W) = Inr z" "softmax z = Inr s" "one_hot s = Inr P"
      "one_hot_softmax_dot ?A (h ! W) = Inr P"
    using one_hot_softmax_dot_succeeds [OF shp assms(3)] by blast
  have "LogisticRegression_predict (LogisticRegression_init b) h X (Some W)
          = (Inr (length ?h1), ?h1 @ [P])"
    using zsp(4) assms(1)
    by (cases b)
      (simp_all add: LogisticRegression_predict_def LogisticRegression_init_def augment_eq
        call2_def alloc_def nth_append)
  moreover have "fst (LinearRegression_predict (LinearRegression_init b) h X (Some W))
                   = Inl AssertionError"
    by (simp add: LinearRegression_predict_def LinearRegression_init_def)
  ultimately show ?thesis using zsp by blast
qed


theorem override_predict_on_unfitted_witness:
  "(1::nat) < length [NDArray 1 [[1], [2]], NDArray 2 [[0, 0], [0, 0]]] \<and>
   shape0 ([NDArray 1 [[1], [2]], NDArray 2 [[0, 0], [0, 0]]] ! 1)
     = Suc (shape1 ([NDArray 1 [[1], [2]], NDArray 2 [[0, 0], [0, 0]]] ! 0)) \<and>
   0 < shape1 ([NDArray 1 [[1], [2]], NDArray 2 [[0, 0], [0, 0]]] ! 1) \<and>
   LogisticRegression_predict (LogisticRegression_init True)
       [NDArray 1 [[1], [2]], NDArray 2 [[0, 0], [0, 0]]] 0 (Some 1)
     = (Inr 4, [NDArray 1 [[1], [2]], NDArray 2 [[0, 0], [0, 0]], NDArray 1 [[1], [2]],
                NDArray 2 [[1, 1], [1, 2]], NDArray 2 [[1, 0], [1, 0]]])"
proof -
  let ?h = "[NDArray 1 [[1], [2]], NDArray 2 [[0, 0], [0, 0]]]"
  have W: "(1::nat) < length ?h" by simp
  have shp: "shape0 (?h ! 1) = (if True then Suc (shape1 (?h ! 0)) else shape1 (?h ! 0))"
    by (simp add: shape0_def)
  have pos: "0 < shape1 (?h ! 1)" by simp
  have dot: "np_dot (NDArray 2 [[1, 1], [1, 2]]) (NDArray 2 [[0, 0], [0, 0]])
               = Inr (NDArray 2 [[0, 0], [0, 0]])"
    by code_simp
  have sm: "softmax (NDArray 2 [[0, 0], [0, 0]])
              = Inr (NDArray 2 [[100000000 / 200000001, 100000000 / 200000001],
                                [100000000 / 200000001, 100000000 / 200000001]])"
    by (simp add: softmax_result softmax_entry_def row_max_def item_def shape0_def
        upt_rec lessThan_Suc numeral_2_eq_2)
  have oh: "one_hot (NDArray 2 [[100000000 / 200000001, 100000000 / 200000001],
                                [100000000 / 200000001, 100000000 / 200000001]])
              = Inr (NDArray 2 [[1, 0], [1, 0]])"
    by code_simp
  have aug: "augment True ?h 0 = (Inr 3, ?h @ [NDArray 1 [[1], [2]], NDArray 2 [[1, 1], [1, 2]]])"
    by (simp add: augment_eq with_bias_def)
  have wb: "with_bias (?h ! 0) = NDArray 2 [[1, 1], [1, 2]]"
    by (simp add: with_bias_def)
  have nth: "?h ! 1 = NDArray 2 [[0, 0], [0, 0]]" by simp
  from override_predict_on_unfitted [OF W shp pos]
  obtain z s P where
    z: "np_dot (with_bias (?h ! 0)) (?h ! 1) = Inr z" and
    s: "softmax z = Inr s" and
    P: "one_hot s = Inr P" and
    res: "LogisticRegression_predict (LogisticRegression_init True) ?h 0 (Some 1)
            = (Inr (length (snd (augment True ?h 0))), snd (augment True ?h 0) @ [P])"
    by auto
  have "z = NDArray 2 [[0, 0], [0, 0]]" using z dot unfolding wb nth by simp
  then have "s = NDArray 2 [[100000000 / 200000001, 100000000 / 200000001],
                            [100000000 / 200000001, 100000000 / 200000001]]"
    using s sm by simp
  then have "P = NDArray 2 [[1, 0], [1, 0]]" using P oh by simp
  then have "LogisticRegression_predict (LogisticRegression_init True) ?h 0 (Some 1)
     = (Inr 4, [NDArray 1 [[1], [2]], NDArray 2 [[0, 0], [0, 0]], NDArray 1 [[1], [2]],
                NDArray 2 [[1, 1], [1, 2]], NDArray 2 [[1, 0], [1, 0]]])"
    using res unfolding aug by simp
  then show ?thesis using W pos by (simp add: shape0_def)
qed

section \<open>Linear regression: the gradient and the cost\<close>

lemma table_cong:
  "(\<And>i j. i < n \<Longrightarrow> j < m \<Longrightarrow> F i j = G i j) \<Longrightarrow>
   map (\<lambda>i. map (F i) [0..<m]) [0..<n] = map (\<lambda>i. map (G i) [0..<m]) [0..<n]"
  by simp

lemma np_dot_result:
  assumes "shape1 a = shape0 b"
  shows "np_dot a b = Inr (NDArray (shape1 b)
           (map (\<lambda>i. map (\<lambda>j. \<Sum>k<shape1 a. item a i k * item b k j) [0..<shape1 b])
              [0..<shape0 a]))"
proof -
  have "map (\<lambda>r. map (\<lambda>j. \<Sum>k\<leftarrow>[0..<shape1 a]. r ! k * item b k j) [0..<shape1 b]) (rows a)
          = map (\<lambda>i. map (\<lambda>j. \<Sum>k<shape1 a. item a i k * item b k j) [0..<shape1 b])
              [0..<shape0 a]"
    by (rule nth_equalityI) (simp_all add: shape0_def item_def sum_list_upt)
  then show ?thesis using assms by (simp add: np_dot_def)
qed

lemma np_binop_same_shape:
  assumes "shape0 b = shape0 a" and "shape1 b = shape1 a"
  shows "np_binop f a b = Inr (NDArray (shape1 a)
           (map (\<lambda>i. map (\<lambda>j. f (item a i j) (item b i j)) [0..<shape1 a]) [0..<shape0 a]))"
proof -
  have "f (bitem a i j) (bitem b i j) = f (item a i j) (item b i j)"
    if "i < shape0 a" "j < shape1 a" for i j
    using that assms by (auto simp: bitem_def)
  then show ?thesis
    using assms by (simp add: np_binop_def broadcast_dim_def)
qed

lemma sum_list_concat_real: "sum_list (concat xss) = (\<Sum>xs\<leftarrow>xss. sum_list (xs :: real list))"
  by (induction xss) simp_all

lemma shape0_table: "shape0 (NDArray m (map F [0..<n])) = n"
  by (simp add: shape0_def)

lemma np_sum_table:
  "np_sum (NDArray m (map (\<lambda>i. map (F i) [0..<m]) [0..<n])) = (\<Sum>i<n. \<Sum>j<m. F i j)"
  by (simp add: np_sum_def sum_list_concat_real comp_def sum_list_upt)

lemma cost_fn_result:
  assumes "shape1 X = shape0 W" and "shape0 y = shape0 X" and "shape1 y = shape1 W"
  shows "LinearRegression_cost_fn X y W =
     Inr (0.5 * (\<Sum>i<shape0 X. \<Sum>j<shape1 W.
                   (item y i j - (\<Sum>l<shape1 X. item X i l * item W l j)) ^ 2))"
proof -
  let ?n = "shape0 X" and ?c = "shape1 W"
  let ?Xw = "NDArray ?c (map (\<lambda>i. map (\<lambda>j. \<Sum>l<shape1 X. item X i l * item W l j) [0..<?c]) [0..<?n])"
  have dot: "np_dot X W = Inr ?Xw" by (rule np_dot_result [OF assms(1)])
  have "np_subtract y ?Xw = Inr (NDArray (shape1 y)
          (map (\<lambda>i. map (\<lambda>j. item y i j - item ?Xw i j) [0..<shape1 y]) [0..<shape0 y]))"
    unfolding np_subtract_def
    by (rule np_binop_same_shape) (simp_all add: assms shape0_table)
  also have "\<dots> = Inr (NDArray ?c
          (map (\<lambda>i. map (\<lambda>j. item y i j - (\<Sum>l<shape1 X. item X i l * item W l j)) [0..<?c]) [0..<?n]))"
    unfolding assms(2,3) by (simp add: item_def)
  finally have sub: "np_subtract y ?Xw = Inr (NDArray ?c
          (map (\<lambda>i. map (\<lambda>j. item y i j - (\<Sum>l<shape1 X. item X i l * item W l j)) [0..<?c]) [0..<?n]))" .
  show ?thesis
    unfolding LinearRegression_cost_fn_def dot bind_err_def sum.case sub
    by (simp add: map_nd_def comp_def np_sum_table)
qed


lemma gradient_result:
  assumes "shape1 X = shape0 W" and "shape0 y = shape0 X" and "shape1 y = shape1 W"
    and "0 < shape0 X"
  shows "LinearRegression_gradient X y W =
     Inr (NDArray (shape1 W)
       (map (\<lambda>k. map (\<lambda>j. (\<Sum>i<shape0 X. item X i k *
                                 ((\<Sum>l<shape1 X. item X i l * item W l j) - item y i j))
                              / real (shape0 X)) [0..<shape1 W])
          [0..<shape0 W]))"
proof -
  let ?n = "shape0 X" and ?c = "shape1 W" and ?d = "shape1 X"
  let ?a = "\<lambda>i j. \<Sum>l<?d. item X i l * item W l j"
  let ?y_hat = "NDArray ?c (map (\<lambda>i. map (?a i) [0..<?c]) [0..<?n])"
  let ?r = "NDArray ?c (map (\<lambda>i. map (\<lambda>j. ?a i j - item y i j) [0..<?c]) [0..<?n])"
  let ?XT = "transpose_nd X"
  let ?p = "NDArray ?c (map (\<lambda>k. map (\<lambda>j. \<Sum>i<?n. item X i k * (?a i j - item y i j)) [0..<?c]) [0..<?d])"
  have dot: "np_dot X W = Inr ?y_hat" by (rule np_dot_result [OF assms(1)])
  have "np_subtract ?y_hat y = Inr (NDArray (shape1 ?y_hat)
          (map (\<lambda>i. map (\<lambda>j. item ?y_hat i j - item y i j) [0..<shape1 ?y_hat]) [0..<shape0 ?y_hat]))"
    unfolding np_subtract_def
    by (rule np_binop_same_shape) (simp_all add: assms shape0_table)
  also have "\<dots> = Inr ?r"
    by (simp add: shape0_table item_table)
  finally have sub: "np_subtract ?y_hat y = Inr ?r" .
  have XT0: "shape0 ?XT = ?d" by (simp add: transpose_nd_def shape0_def)
  have XT1: "shape1 ?XT = ?n" by (simp add: transpose_nd_def)
  have XTi: "item ?XT k i = item X i k" if "k < ?d" "i < ?n" for k i
    using that by (simp add: transpose_nd_def item_def shape0_def)
  have "np_dot ?XT ?r = Inr (NDArray (shape1 ?r)
           (map (\<lambda>k. map (\<lambda>j. \<Sum>i<shape1 ?XT. item ?XT k i * item ?r i j) [0..<shape1 ?r])
              [0..<shape0 ?XT]))"
    by (rule np_dot_result) (simp add: XT1 shape0_table)
  also have "\<dots> = Inr ?p"
    unfolding XT0 XT1 by (simp add: XTi item_table)
  finally have dot2: "np_dot ?XT ?r = Inr ?p" .
  have div: "divide_scalar ?p ?n = Inr (map_nd (\<lambda>x. x / real ?n) ?p)"
    using assms(4) by (simp add: divide_scalar_def)
  show ?thesis
    unfolding LinearRegression_gradient_def dot bind_err_def sum.case sub dot2 div
    using assms(1) by (simp add: map_nd_def comp_def)
qed

lemma setitem_shape: "shape0 (setitem W k j t) = shape0 W" "shape1 (setitem W k j t) = shape1 W"
  by (simp_all add: setitem_def shape0_def)

lemma setitem_item:
  assumes "wf_ndarray W" and "k < shape0 W" and "j0 < shape1 W"
  shows "item (setitem W k j0 t) l j = (if l = k \<and> j = j0 then t else item W l j)"
proof -
  have "length (rows W ! k) = shape1 W"
    using assms(1,2) by (simp add: wf_ndarray_def list_all_length shape0_def)
  then show ?thesis
    using assms(2,3) by (auto simp: setitem_def item_def shape0_def nth_list_update)
qed

lemma perturbed_dot:
  fixes k d :: nat and x v :: "nat \<Rightarrow> real"
  assumes "k < d"
  shows "(\<Sum>l<d. x l * (if l = k \<and> j = j0 then t else v l))
           = (\<Sum>l<d. x l * v l) + (if j = j0 then x k * (t - v k) else 0)"
proof (cases "j = j0")
  case False
  then show ?thesis by simp
next
  case True
  have "(\<Sum>l<d. x l * (if l = k then t else v l))
          = (\<Sum>l<d. x l * v l + (if l = k then x k * (t - v k) else 0))"
    by (rule sum.cong) (auto simp: algebra_simps)
  also have "\<dots> = (\<Sum>l<d. x l * v l) + (\<Sum>l<d. if l = k then x k * (t - v k) else 0)"
    by (simp add: sum.distrib)
  also have "(\<Sum>l<d. if l = k then x k * (t - v k) else 0) = x k * (t - v k)"
    using assms by (subst sum.delta) auto
  finally show ?thesis using True by simp
qed

lemma quadratic_deriv:
  fixes r q :: "nat \<Rightarrow> nat \<Rightarrow> real"
  shows "((\<lambda>t. 0.5 * (\<Sum>i<n. \<Sum>j<c. (r i j - q i j * (t - t0)) ^ 2))
           has_real_derivative (\<Sum>i<n. \<Sum>j<c. - (r i j * q i j))) (at t0)"
proof -
  have "(\<Sum>i<n. \<Sum>j<c. - (2 * (q i j * r i j))) = 2 * (\<Sum>i<n. \<Sum>j<c. - (r i j * q i j))"
    unfolding sum_distrib_left by (intro sum.cong refl) simp
  then show ?thesis
    by (auto intro!: derivative_eq_intros)
qed


lemma cost_fn_perturbed:
  assumes wf: "wf_ndarray W" and d: "shape1 X = shape0 W" and y0: "shape0 y = shape0 X"
    and y1: "shape1 y = shape1 W" and k: "k < shape0 W" and j0: "j0 < shape1 W"
  shows "LinearRegression_cost_fn X y (setitem W k j0 t) =
     Inr (0.5 * (\<Sum>i<shape0 X. \<Sum>j<shape1 W.
            ((item y i j - (\<Sum>l<shape1 X. item X i l * item W l j))
               - (if j = j0 then item X i k else 0) * (t - item W k j0)) ^ 2))"
proof -
  have "LinearRegression_cost_fn X y (setitem W k j0 t) =
     Inr (0.5 * (\<Sum>i<shape0 X. \<Sum>j<shape1 (setitem W k j0 t).
                   (item y i j - (\<Sum>l<shape1 X. item X i l * item (setitem W k j0 t) l j)) ^ 2))"
    by (rule cost_fn_result) (simp_all add: setitem_shape d y0 y1)
  moreover have "(\<Sum>l<shape1 X. item X i l * item (setitem W k j0 t) l j)
      = (\<Sum>l<shape1 X. item X i l * item W l j)
          + (if j = j0 then item X i k else 0) * (t - item W k j0)" for i j
    using perturbed_dot [of k "shape1 X" "\<lambda>l. item X i l" j j0 t "\<lambda>l. item W l j"] k d
    by (simp add: setitem_item [OF wf k j0])
  ultimately show ?thesis
    by (simp add: setitem_shape diff_diff_eq)
qed

text \<open>
  C3. Let \<open>X\<close> have \<open>n > 0\<close> rows and let \<open>X\<close>, \<open>y\<close>, \<open>W\<close> have the shapes
  \<open>(n, d)\<close>, \<open>(n, c)\<close> and \<open>(d, c)\<close>. Then \<open>cost_fn(X, y, W)\<close> is
  \<open>0.5 \<cdot> \<Sum>(y - XW)\<^sup>2\<close>, \<open>gradient(X, y, W)\<close> has the shape of \<open>W\<close>, and for
  every entry \<open>(k, j)\<close>: the cost as a function of that entry of \<open>W\<close> alone (the other
  entries fixed) is differentiable at its value in \<open>W\<close>, its derivative \<open>D\<close> there is
  the entry \<open>(k, j)\<close> of \<open>X\<^sup>T(XW - y)\<close>, and the entry of the gradient is \<open>D / n\<close>.
\<close>

theorem gradient_is_cost_derivative:
  assumes "wf_ndarray W" and "0 < shape0 X" and "shape1 X = shape0 W"
    and "shape0 y = shape0 X" and "shape1 y = shape1 W"
  shows "\<exists>G. LinearRegression_gradient X y W = Inr G \<and>
           shape0 G = shape0 W \<and> shape1 G = shape1 W \<and>
           LinearRegression_cost_fn X y W =
             Inr (0.5 * (\<Sum>i<shape0 X. \<Sum>j<shape1 W.
                    (item y i j - (\<Sum>l<shape1 X. item X i l * item W l j)) ^ 2)) \<and>
           (\<forall>k<shape0 W. \<forall>j<shape1 W. \<exists>cost D.
              (\<forall>t. LinearRegression_cost_fn X y (setitem W k j t) = Inr (cost t)) \<and>
              (cost has_real_derivative D) (at (item W k j)) \<and>
              D = (\<Sum>i<shape0 X. item X i k *
                     ((\<Sum>l<shape1 X. item X i l * item W l j) - item y i j)) \<and>
              item G k j = D / real (shape0 X))"
proof -
  let ?n = "shape0 X" and ?c = "shape1 W" and ?d = "shape1 X"
  let ?a = "\<lambda>i j. \<Sum>l<?d. item X i l * item W l j"
  let ?D = "\<lambda>k j. \<Sum>i<?n. item X i k * (?a i j - item y i j)"
  let ?G = "NDArray ?c (map (\<lambda>k. map (\<lambda>j. ?D k j / real ?n) [0..<?c]) [0..<shape0 W])"
  have G: "LinearRegression_gradient X y W = Inr ?G"
    by (rule gradient_result [OF assms(3,4,5,2)])
  have G0: "shape0 ?G = shape0 W" by (simp add: shape0_table)
  have G1: "shape1 ?G = shape1 W" by simp
  have C: "LinearRegression_cost_fn X y W =
             Inr (0.5 * (\<Sum>i<?n. \<Sum>j<?c. (item y i j - ?a i j) ^ 2))"
    by (rule cost_fn_result [OF assms(3,4,5)])
  have each: "\<exists>cost D.
              (\<forall>t. LinearRegression_cost_fn X y (setitem W k j t) = Inr (cost t)) \<and>
              (cost has_real_derivative D) (at (item W k j)) \<and>
              D = ?D k j \<and> item ?G k j = D / real ?n"
    if k: "k < shape0 W" and j: "j < ?c" for k j
  proof -
    let ?r = "\<lambda>i j'. item y i j' - ?a i j'"
    let ?q = "\<lambda>i j'. if j' = j then item X i k else 0"
    let ?cost = "\<lambda>t. 0.5 * (\<Sum>i<?n. \<Sum>j'<?c. (?r i j' - ?q i j' * (t - item W k j)) ^ 2)"
    have c: "\<forall>t. LinearRegression_cost_fn X y (setitem W k j t) = Inr (?cost t)"
      using cost_fn_perturbed [OF assms(1,3,4,5) k j] by simp
    have "(?cost has_real_derivative (\<Sum>i<?n. \<Sum>j'<?c. - (?r i j' * ?q i j'))) (at (item W k j))"
      by (rule quadratic_deriv)
    moreover have "(\<Sum>j'<?c. - (?r i j' * ?q i j')) = item X i k * (?a i j - item y i j)" for i
    proof -
      have "(\<Sum>j'<?c. - (?r i j' * ?q i j'))
              = (\<Sum>j'<?c. if j' = j then item X i k * (?a i j - item y i j) else 0)"
        by (rule sum.cong) (auto simp: algebra_simps)
      also have "\<dots> = item X i k * (?a i j - item y i j)"
        using j by (subst sum.delta) auto
      finally show ?thesis .
    qed
    ultimately have deriv: "(?cost has_real_derivative ?D k j) (at (item W k j))"
      by simp
    have g: "item ?G k j = ?D k j / real ?n"
      using k j by (simp add: item_table)
    show ?thesis
      by (rule exI [of _ ?cost], rule exI [of _ "?D k j"]) (intro conjI c deriv refl g)
  qed
  show ?thesis using G G0 G1 C each by blast
qed

text \<open>
  On the data of the round trip, at \<open>W = 0\<close>: the cost is 28, the gradient is
  \<open>[[-4], [-28/3]]\<close>, and the derivative of the cost in the slope is \<open>-28\<close>, three
  times the second entry of the gradient.
\<close>

theorem gradient_is_cost_derivative_witness:
  "wf_ndarray (NDArray 1 [[0], [0]]) \<and>
   0 < shape0 (NDArray 2 [[1, 1], [1, 2], [1, 3]]) \<and>
   shape1 (NDArray 2 [[1, 1], [1, 2], [1, 3]]) = shape0 (NDArray 1 [[0], [0]]) \<and>
   shape0 (NDArray 1 [[2], [4], [6]]) = shape0 (NDArray 2 [[1, 1], [1, 2], [1, 3]]) \<and>
   shape1 (NDArray 1 [[2], [4], [6]]) = shape1 (NDArray 1 [[0], [0]]) \<and>
   LinearRegression_gradient (NDArray 2 [[1, 1], [1, 2], [1, 3]]) (NDArray 1 [[2], [4], [6]])
       (NDArray 1 [[0], [0]])
     = Inr (NDArray 1 [[- 4], [- (28 / 3)]]) \<and>
   LinearRegression_cost_fn (NDArray 2 [[1, 1], [1, 2], [1, 3]]) (NDArray 1 [[2], [4], [6]])
       (NDArray 1 [[0], [0]])
     = Inr 28 \<and>
   (\<exists>cost. (\<forall>t. LinearRegression_cost_fn (NDArray 2 [[1, 1], [1, 2], [1, 3]])
                    (NDArray 1 [[2], [4], [6]]) (setitem (NDArray 1 [[0], [0]]) 1 0 t)
                = Inr (cost t)) \<and>
           (cost has_real_derivative - 28) (at 0))"
proof -
  let ?X = "NDArray 2 [[1, 1], [1, 2], [1, 3]]" and ?y = "NDArray 1 [[2], [4], [6]]"
  let ?W = "NDArray 1 [[0], [0]]"
  have wf: "wf_ndarray ?W" by (simp add: wf_ndarray_def)
  have n: "0 < shape0 ?X" by (simp add: shape0_def)
  have d: "shape1 ?X = shape0 ?W" by (simp add: shape0_def)
  have y0: "shape0 ?y = shape0 ?X" by (simp add: shape0_def)
  have y1: "shape1 ?y = shape1 ?W" by simp
  have g: "LinearRegression_gradient ?X ?y ?W = Inr (NDArray 1 [[- 4], [- (28 / 3)]])"
    by code_simp
  have c: "LinearRegression_cost_fn ?X ?y ?W = Inr 28"
    by code_simp
  from gradient_is_cost_derivative [OF wf n d y0 y1]
  obtain G where G: "LinearRegression_gradient ?X ?y ?W = Inr G"
    and each: "\<forall>k<shape0 ?W. \<forall>j<shape1 ?W. \<exists>cost D.
              (\<forall>t. LinearRegression_cost_fn ?X ?y (setitem ?W k j t) = Inr (cost t)) \<and>
              (cost has_real_derivative D) (at (item ?W k j)) \<and>
              D = (\<Sum>i<shape0 ?X. item ?X i k *
                     ((\<Sum>l<shape1 ?X. item ?X i l * item ?W l j) - item ?y i j)) \<and>
              item G k j = D / real (shape0 ?X)"
    by blast
  have "(1::nat) < shape0 ?W" "(0::nat) < shape1 ?W" by (simp_all add: shape0_def)
  with each obtain cost D where
    cost: "\<forall>t. LinearRegression_cost_fn ?X ?y (setitem ?W 1 0 t) = Inr (cost t)" and
    deriv: "(cost has_real_derivative D) (at (item ?W 1 0))" and
    D: "item G 1 0 = D / real (shape0 ?X)"
    by blast
  have "G = NDArray 1 [[- 4], [- (28 / 3)]]" using G g by simp
  then have "D = - 28" using D by (simp add: item_def shape0_def)
  moreover have "item ?W 1 0 = 0" by (simp add: item_def)
  ultimately have "(cost has_real_derivative - 28) (at 0)" using deriv by simp
  then show ?thesis using wf n d y0 y1 g c cost by blast
qed

end
